theory Spec2Isabelle
  imports Complex_Main
begin

section \<open>The UN-EX fusion simulator (src/app.py)\<close>

text \<open>
  The program evaluates a handful of arithmetic expressions on Python floats, which are
  IEEE binary64 numbers. Two readings of the code are given.

  The exact reading models a float as a \<^typ>\<open>real\<close>: it keeps the expressions, their
  order, the clamps and the exceptions of the source, and it leaves out what doubles add
  to them (rounding, overflow to an infinity, not-a-number). The decimal literals
  \<open>1e-4\<close> and \<open>0.1\<close> are read as the rationals they denote.

  The binary64 reading models a float as a rounded value: every operation rounds its
  exact result to the nearest double, ties to even, overflows to an infinity, and
  propagates not-a-number as the hardware does.

  The formula (C1), the confinement time (C3), the clamp (C4), the unused argument (C6),
  the division fault (C7), the reference models (C8) and the comparison (C9) are stated
  on the exact reading. The floor (C2), the monotonicity (C5) and the order of the
  diffusion coefficients (C10) depend on rounding and overflow; they are settled on the
  binary64 reading.
\<close>

subsection \<open>Python's exceptions and primitive operations\<close>

text \<open>
  \<open>ZeroDivisionError\<close> is what \<open>x / y\<close> raises on floats when \<open>y\<close> is zero.
  \<open>TypeError\<close> stands for the failure of \<open>main\<close> on a negative temperature:
  \<open>T**0.5\<close> is then a complex number, and the comparison \<open>tau_E_unex > tau_E_neoclassical\<close>
  (line 176) raises. Nothing the model returns is produced between the two places, so
  the model reports the error where the power is taken.
  \<open>OverflowError\<close> is what \<open>x ** 2\<close> raises when the square is too large for a
  double; only the binary64 reading can raise it.
\<close>

datatype py_error = ZeroDivisionError | TypeError | OverflowError

definition truediv :: "real \<Rightarrow> real \<Rightarrow> py_error + real" where
  "truediv x y = (if y = 0 then Inl ZeroDivisionError else Inr (x / y))"

text \<open>
  The builtin \<open>max(x, y)\<close> keeps its first argument unless a later one compares
  strictly greater.
\<close>

definition py_max :: "real \<Rightarrow> real \<Rightarrow> real" where
  "py_max x y = (if y > x then y else x)"

text \<open>\<open>x ** 0.5\<close> on floats: a real result only for a base that is not negative.\<close>

definition pow_half :: "real \<Rightarrow> py_error + real" where
  "pow_half x = (if x < 0 then Inl TypeError else Inr (x powr (1 / 2)))"

subsection \<open>\<open>calculate_unex_diffusion\<close> (lines 19 to 58)\<close>

definition min_diffusion_floor :: real where
  "min_diffusion_floor = 1 / 10000"

definition calculate_unex_diffusion ::
  "real \<Rightarrow> real \<Rightarrow> real \<Rightarrow> real \<Rightarrow> real \<Rightarrow> real \<Rightarrow> real \<Rightarrow> real \<Rightarrow> py_error + real" where
  "calculate_unex_diffusion T B E_harmonic S_local alpha_coeff beta_coeff gamma_coeff delta =
     (let S_local_adjusted = py_max 0 S_local in
      case truediv T B of
        Inl e \<Rightarrow> Inl e
      | Inr q \<Rightarrow>
          (let diffusion_coefficient =
                 (alpha_coeff * q) - (beta_coeff * E_harmonic) + (gamma_coeff * S_local_adjusted)
           in Inr (py_max diffusion_coefficient min_diffusion_floor)))"

subsection \<open>The calculations of \<open>main\<close> (lines 132 to 179)\<close>

text \<open>
  \<open>main\<close> is one long function. Its expressions are named here so that each can be
  stated on its own: \<open>confinement_time a D\<close> is \<open>(a**2) / D\<close> (lines 138, 157 and 166),
  \<open>bohm_diffusion\<close> is line 156, \<open>neoclassical_diffusion\<close> is line 165, and
  \<open>compare_tau\<close> is the test of the two \<open>if\<close> statements (lines 171 and 176), which
  chooses between \<open>st.success\<close> (the "better than" message) and \<open>st.info\<close> (the
  "comparable to or worse than" message).
\<close>

definition confinement_time :: "real \<Rightarrow> real \<Rightarrow> py_error + real" where
  "confinement_time a D = truediv (a ^ 2) D"

definition bohm_diffusion :: "real \<Rightarrow> real \<Rightarrow> real \<Rightarrow> py_error + real" where
  "bohm_diffusion scaling_factor_bohm T B =
     (case truediv T B of
        Inl e \<Rightarrow> Inl e
      | Inr q \<Rightarrow> Inr (scaling_factor_bohm * q))"

definition neoclassical_diffusion :: "real \<Rightarrow> real \<Rightarrow> real \<Rightarrow> py_error + real" where
  "neoclassical_diffusion scaling_factor_neoclassical T B =
     (case pow_half T of
        Inl e \<Rightarrow> Inl e
      | Inr r \<Rightarrow>
          (case truediv r (B ^ 2) of
             Inl e \<Rightarrow> Inl e
           | Inr q \<Rightarrow> Inr (scaling_factor_neoclassical * q)))"

datatype message = Better | Comparable_or_worse

definition compare_tau :: "real \<Rightarrow> real \<Rightarrow> message" where
  "compare_tau tau_E_unex tau_E_ref =
     (if tau_E_unex > tau_E_ref then Better else Comparable_or_worse)"

record results =
  D_UNEX :: real
  tau_E_unex :: real
  D_Bohm :: real
  tau_E_bohm :: real
  D_Neoclassical :: real
  tau_E_neoclassical :: real
  msg_bohm :: message
  msg_neoclassical :: message

text \<open>
  The body of \<open>main\<close> after the paywall, as a function of the eight slider values. The
  constants \<open>a = 1.0\<close>, \<open>scaling_factor_bohm = 1.0\<close> and
  \<open>scaling_factor_neoclassical = 0.1\<close> are the source's.
\<close>

definition main_calc ::
  "real \<Rightarrow> real \<Rightarrow> real \<Rightarrow> real \<Rightarrow> real \<Rightarrow> real \<Rightarrow> real \<Rightarrow> real \<Rightarrow> py_error + results" where
  "main_calc T B E_harmonic S_local alpha_coeff beta_coeff gamma_coeff delta =
     (case calculate_unex_diffusion T B E_harmonic S_local alpha_coeff beta_coeff gamma_coeff delta of
        Inl e \<Rightarrow> Inl e
      | Inr d_unex \<Rightarrow>
     (let a = 1 in
      case confinement_time a d_unex of
        Inl e \<Rightarrow> Inl e
      | Inr t_unex \<Rightarrow>
     (let scaling_factor_bohm = 1 in
      case bohm_diffusion scaling_factor_bohm T B of
        Inl e \<Rightarrow> Inl e
      | Inr d_bohm \<Rightarrow>
     (case confinement_time a d_bohm of
        Inl e \<Rightarrow> Inl e
      | Inr t_bohm \<Rightarrow>
     (let scaling_factor_neoclassical = 1 / 10 in
      case neoclassical_diffusion scaling_factor_neoclassical T B of
        Inl e \<Rightarrow> Inl e
      | Inr d_neo \<Rightarrow>
     (case confinement_time a d_neo of
        Inl e \<Rightarrow> Inl e
      | Inr t_neo \<Rightarrow>
          Inr \<lparr> D_UNEX = d_unex, tau_E_unex = t_unex,
                D_Bohm = d_bohm, tau_E_bohm = t_bohm,
                D_Neoclassical = d_neo, tau_E_neoclassical = t_neo,
                msg_bohm = compare_tau t_unex t_bohm,
                msg_neoclassical = compare_tau t_unex t_neo \<rparr>))))))"

subsection \<open>The specification's formula\<close>

text \<open>
  Section 4.1 of the specification, in its own words: clamp \<open>S_local\<close> at zero, take the
  linear combination, return its maximum with the floor. It is compared below with
  \<open>calculate_unex_diffusion\<close>, which is translated from the source.
\<close>

definition evaluateDiffusion_spec ::
  "real \<Rightarrow> real \<Rightarrow> real \<Rightarrow> real \<Rightarrow> real \<Rightarrow> real \<Rightarrow> real \<Rightarrow> real" where
  "evaluateDiffusion_spec T B E_h S al be ga =
     max (al * (T / B) - be * E_h + ga * max 0 S) min_diffusion_floor"

section \<open>The binary64 reading\<close>

subsection \<open>Rounding to the nearest double\<close>

text \<open>
  \<open>rhe\<close> rounds a real to the nearest integer, a tie to the even neighbour.
\<close>

definition rhe :: "real \<Rightarrow> int" where
  "rhe x = (let f = \<lfloor>x\<rfloor>; d = x - of_int f in
            if d < 1 / 2 then f else if 1 / 2 < d then f + 1
            else if even f then f else f + 1)"

text \<open>
  \<open>expo x\<close> is the binary exponent of \<open>x\<close>, held at \<open>-1022\<close> for the subnormal
  range; \<open>ulp x\<close> is the distance between neighbouring doubles around \<open>x\<close> (52 fraction
  bits); \<open>quantize x\<close> is the multiple of \<open>ulp x\<close> nearest to \<open>x\<close>.
\<close>

definition expo :: "real \<Rightarrow> int" where
  "expo x = max \<lfloor>log 2 \<bar>x\<bar>\<rfloor> (- 1022)"

definition ulp :: "real \<Rightarrow> real" where
  "ulp x = 2 powi (expo x - 52)"

definition quantize :: "real \<Rightarrow> real" where
  "quantize x = of_int (rhe (x / ulp x)) * ulp x"

text \<open>
  A float is a finite value, one of the two infinities or not-a-number. The two signed
  zeros are one value \<open>Fin 0\<close>: the program never observes the sign of a zero, since
  a division by either raises. \<open>rnd\<close> is the rounding of an exact result: at or above
  \<open>2^1024 - 2^970\<close>, half a step past the largest double, it is an infinity.
\<close>

datatype fl = Fin real | PInf | NInf | NaN

definition overflow_threshold :: real where
  "overflow_threshold = 2 ^ 1024 - 2 ^ 970"

definition rnd :: "real \<Rightarrow> fl" where
  "rnd x = (if overflow_threshold \<le> x then PInf
            else if x \<le> - overflow_threshold then NInf
            else Fin (quantize x))"

subsection \<open>Comparisons and arithmetic\<close>

text \<open>
  \<open>fl_lt\<close> and \<open>fl_le\<close> are \<open><\<close> and \<open><=\<close> on floats: every comparison with
  not-a-number is false. The operations round the exact result of finite operands and
  follow IEEE 754 on the others. \<open>fl_truediv\<close> is Python's \<open>/\<close>: it raises when the
  divisor equals zero and only then. \<open>fl_max x y\<close> is the builtin \<open>max(x, y)\<close>, which
  keeps \<open>x\<close> unless \<open>y > x\<close>, so that it keeps a not-a-number in first place.
\<close>

fun fl_lt :: "fl \<Rightarrow> fl \<Rightarrow> bool" where
  "fl_lt (Fin x) (Fin y) = (x < y)"
| "fl_lt (Fin x) PInf = True"
| "fl_lt NInf (Fin y) = True"
| "fl_lt NInf PInf = True"
| "fl_lt _ _ = False"

fun fl_le :: "fl \<Rightarrow> fl \<Rightarrow> bool" where
  "fl_le (Fin x) (Fin y) = (x \<le> y)"
| "fl_le (Fin x) PInf = True"
| "fl_le NInf (Fin y) = True"
| "fl_le NInf PInf = True"
| "fl_le PInf PInf = True"
| "fl_le NInf NInf = True"
| "fl_le _ _ = False"

fun fl_neg :: "fl \<Rightarrow> fl" where
  "fl_neg (Fin x) = Fin (- x)"
| "fl_neg PInf = NInf"
| "fl_neg NInf = PInf"
| "fl_neg NaN = NaN"

fun fl_add :: "fl \<Rightarrow> fl \<Rightarrow> fl" where
  "fl_add (Fin x) (Fin y) = rnd (x + y)"
| "fl_add NaN y = NaN"
| "fl_add x NaN = NaN"
| "fl_add PInf NInf = NaN"
| "fl_add NInf PInf = NaN"
| "fl_add PInf y = PInf"
| "fl_add x PInf = PInf"
| "fl_add NInf y = NInf"
| "fl_add x NInf = NInf"

definition fl_sub :: "fl \<Rightarrow> fl \<Rightarrow> fl" where
  "fl_sub x y = fl_add x (fl_neg y)"

fun fl_mul :: "fl \<Rightarrow> fl \<Rightarrow> fl" where
  "fl_mul (Fin x) (Fin y) = rnd (x * y)"
| "fl_mul NaN y = NaN"
| "fl_mul x NaN = NaN"
| "fl_mul (Fin x) PInf = (if x = 0 then NaN else if 0 < x then PInf else NInf)"
| "fl_mul (Fin x) NInf = (if x = 0 then NaN else if 0 < x then NInf else PInf)"
| "fl_mul PInf (Fin y) = (if y = 0 then NaN else if 0 < y then PInf else NInf)"
| "fl_mul NInf (Fin y) = (if y = 0 then NaN else if 0 < y then NInf else PInf)"
| "fl_mul PInf PInf = PInf"
| "fl_mul PInf NInf = NInf"
| "fl_mul NInf PInf = NInf"
| "fl_mul NInf NInf = PInf"

fun fl_truediv :: "fl \<Rightarrow> fl \<Rightarrow> py_error + fl" where
  "fl_truediv x (Fin y) =
     (if y = 0 then Inl ZeroDivisionError
      else Inr (case x of
                  Fin a \<Rightarrow> rnd (a / y)
                | PInf \<Rightarrow> (if 0 < y then PInf else NInf)
                | NInf \<Rightarrow> (if 0 < y then NInf else PInf)
                | NaN \<Rightarrow> NaN))"
| "fl_truediv (Fin a) PInf = Inr (Fin 0)"
| "fl_truediv (Fin a) NInf = Inr (Fin 0)"
| "fl_truediv x y = Inr NaN"

definition fl_max :: "fl \<Rightarrow> fl \<Rightarrow> fl" where
  "fl_max x y = (if fl_lt x y then y else x)"


subsection \<open>\<open>calculate_unex_diffusion\<close> on doubles\<close>

text \<open>The literal \<open>1e-4\<close> is the double nearest to one ten-thousandth.\<close>

definition fl_min_diffusion_floor :: fl where
  "fl_min_diffusion_floor = rnd (1 / 10000)"

definition fl_calculate_unex_diffusion ::
  "fl \<Rightarrow> fl \<Rightarrow> fl \<Rightarrow> fl \<Rightarrow> fl \<Rightarrow> fl \<Rightarrow> fl \<Rightarrow> fl \<Rightarrow> py_error + fl" where
  "fl_calculate_unex_diffusion T B E_harmonic S_local alpha_coeff beta_coeff gamma_coeff delta =
     (let S_local_adjusted = fl_max (Fin 0) S_local in
      case fl_truediv T B of
        Inl e \<Rightarrow> Inl e
      | Inr q \<Rightarrow>
          (let diffusion_coefficient =
                 fl_add (fl_sub (fl_mul alpha_coeff q) (fl_mul beta_coeff E_harmonic))
                        (fl_mul gamma_coeff S_local_adjusted)
           in Inr (fl_max diffusion_coefficient fl_min_diffusion_floor)))"

subsection \<open>The calculations of \<open>main\<close> on doubles\<close>

text \<open>
  \<open>x ** 2\<close> and \<open>x ** 0.5\<close> call the C library's \<open>pow\<close>, read here as correctly
  rounded; the runs evaluated below take it only where the result is a double itself
  (\<open>1 ** 2\<close>, \<open>0.5 ** 2\<close>, \<open>2 ** 2\<close>, \<open>20 ** 2\<close>, \<open>1 ** 0.5\<close>, \<open>4 ** 0.5\<close>,
  \<open>9 ** 0.5\<close>). An infinite base gives \<open>inf\<close>, and an overflowing square raises
  \<open>OverflowError\<close>. The negative base of \<open>x ** 0.5\<close> is treated as in the exact reading.
  The literal \<open>0.1\<close> is the double nearest to one tenth.
\<close>

fun fl_pow_two :: "fl \<Rightarrow> py_error + fl" where
  "fl_pow_two (Fin x) = (case rnd (x * x) of PInf \<Rightarrow> Inl OverflowError | y \<Rightarrow> Inr y)"
| "fl_pow_two NaN = Inr NaN"
| "fl_pow_two x = Inr PInf"

fun fl_pow_half :: "fl \<Rightarrow> py_error + fl" where
  "fl_pow_half (Fin x) = (if x < 0 then Inl TypeError else Inr (rnd (sqrt x)))"
| "fl_pow_half NaN = Inr NaN"
| "fl_pow_half x = Inr PInf"

definition fl_confinement_time :: "fl \<Rightarrow> fl \<Rightarrow> py_error + fl" where
  "fl_confinement_time a D =
     (case fl_pow_two a of
        Inl e \<Rightarrow> Inl e
      | Inr a2 \<Rightarrow> fl_truediv a2 D)"

definition fl_bohm_diffusion :: "fl \<Rightarrow> fl \<Rightarrow> fl \<Rightarrow> py_error + fl" where
  "fl_bohm_diffusion scaling_factor_bohm T B =
     (case fl_truediv T B of
        Inl e \<Rightarrow> Inl e
      | Inr q \<Rightarrow> Inr (fl_mul scaling_factor_bohm q))"

definition fl_neoclassical_diffusion :: "fl \<Rightarrow> fl \<Rightarrow> fl \<Rightarrow> py_error + fl" where
  "fl_neoclassical_diffusion scaling_factor_neoclassical T B =
     (case fl_pow_half T of
        Inl e \<Rightarrow> Inl e
      | Inr r \<Rightarrow>
          (case fl_pow_two B of
             Inl e \<Rightarrow> Inl e
           | Inr b2 \<Rightarrow>
               (case fl_truediv r b2 of
                  Inl e \<Rightarrow> Inl e
                | Inr q \<Rightarrow> Inr (fl_mul scaling_factor_neoclassical q))))"

definition fl_compare_tau :: "fl \<Rightarrow> fl \<Rightarrow> message" where
  "fl_compare_tau tau_unex tau_ref =
     (if fl_lt tau_ref tau_unex then Better else Comparable_or_worse)"

record fl_results =
  fl_D_UNEX :: fl
  fl_tau_E_unex :: fl
  fl_D_Bohm :: fl
  fl_tau_E_bohm :: fl
  fl_D_Neoclassical :: fl
  fl_tau_E_neoclassical :: fl
  fl_msg_bohm :: message
  fl_msg_neoclassical :: message

definition fl_main_calc ::
  "fl \<Rightarrow> fl \<Rightarrow> fl \<Rightarrow> fl \<Rightarrow> fl \<Rightarrow> fl \<Rightarrow> fl \<Rightarrow> fl \<Rightarrow> py_error + fl_results" where
  "fl_main_calc T B E_harmonic S_local alpha_coeff beta_coeff gamma_coeff delta =
     (case fl_calculate_unex_diffusion T B E_harmonic S_local alpha_coeff beta_coeff gamma_coeff delta of
        Inl e \<Rightarrow> Inl e
      | Inr d_unex \<Rightarrow>
     (let a = Fin 1 in
      case fl_confinement_time a d_unex of
        Inl e \<Rightarrow> Inl e
      | Inr t_unex \<Rightarrow>
     (let scaling_factor_bohm = Fin 1 in
      case fl_bohm_diffusion scaling_factor_bohm T B of
        Inl e \<Rightarrow> Inl e
      | Inr d_bohm \<Rightarrow>
     (case fl_confinement_time a d_bohm of
        Inl e \<Rightarrow> Inl e
      | Inr t_bohm \<Rightarrow>
     (let scaling_factor_neoclassical = rnd (1 / 10) in
      case fl_neoclassical_diffusion scaling_factor_neoclassical T B of
        Inl e \<Rightarrow> Inl e
      | Inr d_neo \<Rightarrow>
     (case fl_confinement_time a d_neo of
        Inl e \<Rightarrow> Inl e
      | Inr t_neo \<Rightarrow>
          Inr \<lparr> fl_D_UNEX = d_unex, fl_tau_E_unex = t_unex,
                fl_D_Bohm = d_bohm, fl_tau_E_bohm = t_bohm,
                fl_D_Neoclassical = d_neo, fl_tau_E_neoclassical = t_neo,
                fl_msg_bohm = fl_compare_tau t_unex t_bohm,
                fl_msg_neoclassical = fl_compare_tau t_unex t_neo \<rparr>))))))"

section \<open>Helper facts\<close>

lemma py_max_eq_max: "py_max x y = max x y"
  by (simp add: py_max_def max_def)

lemma truediv_nonzero: "y \<noteq> 0 \<Longrightarrow> truediv x y = Inr (x / y)"
  by (simp add: truediv_def)

lemma truediv_zero: "truediv x 0 = Inl ZeroDivisionError"
  by (simp add: truediv_def)

lemma calculate_unex_diffusion_value:
  "B \<noteq> 0 \<Longrightarrow>
   calculate_unex_diffusion T B E_h S al be ga de =
     Inr (max (al * (T / B) - be * E_h + ga * max 0 S) min_diffusion_floor)"
  by (simp add: calculate_unex_diffusion_def truediv_nonzero py_max_eq_max)

lemma calculate_unex_diffusion_fault:
  "calculate_unex_diffusion T 0 E_h S al be ga de = Inl ZeroDivisionError"
  by (simp add: calculate_unex_diffusion_def truediv_zero)

lemma floor_pos: "0 < min_diffusion_floor"
  by (simp add: min_diffusion_floor_def)

lemma confinement_time_nonzero: "D \<noteq> 0 \<Longrightarrow> confinement_time a D = Inr (a * a / D)"
  by (simp add: confinement_time_def truediv_nonzero power2_eq_square)

lemma confinement_time_zero: "confinement_time a 0 = Inl ZeroDivisionError"
  by (simp add: confinement_time_def truediv_zero)

lemma bohm_diffusion_value: "B \<noteq> 0 \<Longrightarrow> bohm_diffusion k T B = Inr (k * (T / B))"
  by (simp add: bohm_diffusion_def truediv_nonzero)

lemma bohm_diffusion_fault: "bohm_diffusion k T 0 = Inl ZeroDivisionError"
  by (simp add: bohm_diffusion_def truediv_zero)

lemma neoclassical_diffusion_value:
  "B \<noteq> 0 \<Longrightarrow> 0 \<le> T \<Longrightarrow>
   neoclassical_diffusion k T B = Inr (k * (T powr (1 / 2) / B ^ 2))"
  by (simp add: neoclassical_diffusion_def pow_half_def truediv_nonzero)

lemma neoclassical_diffusion_negative:
  "T < 0 \<Longrightarrow> neoclassical_diffusion k T B = Inl TypeError"
  by (simp add: neoclassical_diffusion_def pow_half_def)

lemma neoclassical_diffusion_fault:
  "0 \<le> T \<Longrightarrow> neoclassical_diffusion k T 0 = Inl ZeroDivisionError"
  by (simp add: neoclassical_diffusion_def pow_half_def truediv_zero)

lemma evaluateDiffusion_spec_floor: "min_diffusion_floor \<le> evaluateDiffusion_spec T B E_h S al be ga"
  unfolding evaluateDiffusion_spec_def by (rule max.cobounded2)

lemma evaluateDiffusion_spec_pos: "0 < evaluateDiffusion_spec T B E_h S al be ga"
  using floor_pos evaluateDiffusion_spec_floor [of T B E_h S al be ga] by (rule less_le_trans)

lemma calculate_unex_diffusion_evaluateDiffusion_spec:
  "B \<noteq> 0 \<Longrightarrow> calculate_unex_diffusion T B E_h S al be ga de = Inr (evaluateDiffusion_spec T B E_h S al be ga)"
  unfolding evaluateDiffusion_spec_def by (rule calculate_unex_diffusion_value)

lemma main_calc_steps:
  assumes "calculate_unex_diffusion T B E_h S al be ga de = Inr d" and "d \<noteq> 0"
    and "bohm_diffusion 1 T B = Inr db" and "db \<noteq> 0"
    and "neoclassical_diffusion (1 / 10) T B = Inr dn" and "dn \<noteq> 0"
  shows "main_calc T B E_h S al be ga de =
    Inr \<lparr> D_UNEX = d, tau_E_unex = 1 / d, D_Bohm = db, tau_E_bohm = 1 / db,
          D_Neoclassical = dn, tau_E_neoclassical = 1 / dn,
          msg_bohm = compare_tau (1 / d) (1 / db),
          msg_neoclassical = compare_tau (1 / d) (1 / dn) \<rparr>"
  by (simp add: main_calc_def assms confinement_time_nonzero)

lemma main_calc_success:
  assumes "B \<noteq> 0" "0 < T"
  shows "main_calc T B E_h S al be ga de =
    Inr \<lparr> D_UNEX = evaluateDiffusion_spec T B E_h S al be ga,
          tau_E_unex = 1 / evaluateDiffusion_spec T B E_h S al be ga,
          D_Bohm = 1 * (T / B),
          tau_E_bohm = 1 / (1 * (T / B)),
          D_Neoclassical = (1 / 10) * (T powr (1 / 2) / B ^ 2),
          tau_E_neoclassical = 1 / ((1 / 10) * (T powr (1 / 2) / B ^ 2)),
          msg_bohm = compare_tau (1 / evaluateDiffusion_spec T B E_h S al be ga) (1 / (1 * (T / B))),
          msg_neoclassical = compare_tau (1 / evaluateDiffusion_spec T B E_h S al be ga)
             (1 / ((1 / 10) * (T powr (1 / 2) / B ^ 2))) \<rparr>"
proof (rule main_calc_steps)
  show "calculate_unex_diffusion T B E_h S al be ga de = Inr (evaluateDiffusion_spec T B E_h S al be ga)"
    using assms(1) by (rule calculate_unex_diffusion_evaluateDiffusion_spec)
  show "evaluateDiffusion_spec T B E_h S al be ga \<noteq> 0"
    using evaluateDiffusion_spec_pos [of T B E_h S al be ga] by simp
  show "bohm_diffusion 1 T B = Inr (1 * (T / B))"
    using assms(1) by (rule bohm_diffusion_value)
  show "1 * (T / B) \<noteq> 0" using assms by simp
  show "neoclassical_diffusion (1 / 10) T B = Inr ((1 / 10) * (T powr (1 / 2) / B ^ 2))"
    using assms by (simp add: neoclassical_diffusion_value)
  show "(1 / 10) * (T powr (1 / 2) / B ^ 2) \<noteq> 0" using assms by simp
qed

lemma main_calc_B_zero: "main_calc T 0 E_h S al be ga de = Inl ZeroDivisionError"
  by (simp add: main_calc_def calculate_unex_diffusion_fault)

lemma main_calc_T_zero:
  assumes "B \<noteq> 0"
  shows "main_calc 0 B E_h S al be ga de = Inl ZeroDivisionError"
proof -
  have u: "evaluateDiffusion_spec 0 B E_h S al be ga \<noteq> 0"
    using evaluateDiffusion_spec_pos [of 0 B E_h S al be ga] by simp
  have c: "calculate_unex_diffusion 0 B E_h S al be ga de = Inr (evaluateDiffusion_spec 0 B E_h S al be ga)"
    using assms by (rule calculate_unex_diffusion_evaluateDiffusion_spec)
  have b: "bohm_diffusion 1 0 B = Inr 0"
    using bohm_diffusion_value [OF assms, of 1 0] by simp
  show ?thesis
    by (simp add: main_calc_def c b confinement_time_nonzero [OF u] confinement_time_zero)
qed

lemma main_calc_T_negative:
  assumes "B \<noteq> 0" "T < 0"
  shows "main_calc T B E_h S al be ga de = Inl TypeError"
proof -
  have u: "evaluateDiffusion_spec T B E_h S al be ga \<noteq> 0"
    using evaluateDiffusion_spec_pos [of T B E_h S al be ga] by simp
  have c: "calculate_unex_diffusion T B E_h S al be ga de = Inr (evaluateDiffusion_spec T B E_h S al be ga)"
    using assms(1) by (rule calculate_unex_diffusion_evaluateDiffusion_spec)
  have b: "bohm_diffusion 1 T B = Inr (T / B)"
    using bohm_diffusion_value [OF assms(1), of 1 T] by simp
  have bn: "T / B \<noteq> 0" using assms by simp
  have n: "neoclassical_diffusion (1 / 10) T B = Inl TypeError"
    using assms(2) by (rule neoclassical_diffusion_negative)
  show ?thesis
    by (simp add: main_calc_def c b n confinement_time_nonzero [OF u]
          confinement_time_nonzero [OF bn])
qed

lemma main_calc_InrD:
  assumes "main_calc T B E_h S al be ga de = Inr r"
  shows "B \<noteq> 0 \<and> 0 < T"
proof -
  have B: "B \<noteq> 0" using assms main_calc_B_zero [of T E_h S al be ga de] by auto
  have "T \<noteq> 0" using assms main_calc_T_zero [OF B, of E_h S al be ga de] by auto
  moreover have "\<not> T < 0" using assms main_calc_T_negative [OF B, of T E_h S al be ga de] by auto
  ultimately show ?thesis using B by simp
qed

lemma main_calc_Inr_record:
  assumes "main_calc T B E_h S al be ga de = Inr r"
  shows "r = \<lparr> D_UNEX = evaluateDiffusion_spec T B E_h S al be ga,
          tau_E_unex = 1 / evaluateDiffusion_spec T B E_h S al be ga,
          D_Bohm = 1 * (T / B),
          tau_E_bohm = 1 / (1 * (T / B)),
          D_Neoclassical = (1 / 10) * (T powr (1 / 2) / B ^ 2),
          tau_E_neoclassical = 1 / ((1 / 10) * (T powr (1 / 2) / B ^ 2)),
          msg_bohm = compare_tau (1 / evaluateDiffusion_spec T B E_h S al be ga) (1 / (1 * (T / B))),
          msg_neoclassical = compare_tau (1 / evaluateDiffusion_spec T B E_h S al be ga)
             (1 / ((1 / 10) * (T powr (1 / 2) / B ^ 2))) \<rparr>"
proof -
  have "B \<noteq> 0" and "0 < T"
    using main_calc_InrD [OF assms] by simp_all
  from main_calc_success [OF this, of E_h S al be ga de] assms show ?thesis
    by simp
qed

lemma main_calc_Inr_fields:
  assumes "main_calc T B E_h S al be ga de = Inr r"
  shows "D_UNEX r = evaluateDiffusion_spec T B E_h S al be ga"
    and "tau_E_unex r = 1 / D_UNEX r"
    and "D_Bohm r = 1 * (T / B)"
    and "tau_E_bohm r = 1 / D_Bohm r"
    and "D_Neoclassical r = (1 / 10) * (T powr (1 / 2) / B ^ 2)"
    and "tau_E_neoclassical r = 1 / D_Neoclassical r"
    and "msg_bohm r = compare_tau (tau_E_unex r) (tau_E_bohm r)"
    and "msg_neoclassical r = compare_tau (tau_E_unex r) (tau_E_neoclassical r)"
  by (simp_all add: main_calc_Inr_record [OF assms])

text \<open>
  Runs of \<open>main\<close> on concrete slider values, used as test points below. The square
  root of the temperature is exact at \<open>T = 4\<close>.
\<close>

lemma four_powr_half: "(4::real) powr (1 / 2) = 2"
proof -
  have "(4::real) powr (1 / 2) = sqrt 4" by (simp add: powr_half_sqrt)
  also have "\<dots> = sqrt (2 ^ 2)" by simp
  also have "\<dots> = 2" by (simp only: real_sqrt_abs)
  finally show ?thesis .
qed


lemma main_calc_example_tie_bohm:
  "main_calc 4 2 0 0 1 1 1 (1 / 100) =
     Inr \<lparr> D_UNEX = 2, tau_E_unex = 1 / 2, D_Bohm = 2, tau_E_bohm = 1 / 2,
           D_Neoclassical = 1 / 20, tau_E_neoclassical = 20,
           msg_bohm = Comparable_or_worse, msg_neoclassical = Comparable_or_worse \<rparr>"
  using main_calc_success [of 2 4 0 0 1 1 1 "1 / 100"]
  by (simp add: evaluateDiffusion_spec_def min_diffusion_floor_def four_powr_half compare_tau_def)

lemma main_calc_example_tie_neoclassical:
  "main_calc 4 2 (39 / 20) 0 1 1 1 (1 / 100) =
     Inr \<lparr> D_UNEX = 1 / 20, tau_E_unex = 20, D_Bohm = 2, tau_E_bohm = 1 / 2,
           D_Neoclassical = 1 / 20, tau_E_neoclassical = 20,
           msg_bohm = Better, msg_neoclassical = Comparable_or_worse \<rparr>"
  using main_calc_success [of 2 4 "39 / 20" 0 1 1 1 "1 / 100"]
  by (simp add: evaluateDiffusion_spec_def min_diffusion_floor_def four_powr_half compare_tau_def)

lemma main_calc_example_floor:
  "main_calc 4 2 10 0 1 1 1 (1 / 100) =
     Inr \<lparr> D_UNEX = 1 / 10000, tau_E_unex = 10000, D_Bohm = 2, tau_E_bohm = 1 / 2,
           D_Neoclassical = 1 / 20, tau_E_neoclassical = 20,
           msg_bohm = Better, msg_neoclassical = Better \<rparr>"
  using main_calc_success [of 2 4 10 0 1 1 1 "1 / 100"]
  by (simp add: evaluateDiffusion_spec_def min_diffusion_floor_def four_powr_half compare_tau_def)


subsection \<open>Rounding\<close>

text \<open>
  Rounding is monotone (\<open>rnd_mono\<close>), and \<open>rnd_eval\<close> evaluates it at a given
  real: \<open>k\<close> is the binary exponent and \<open>n\<close> the integer nearest to the scaled value.
\<close>

lemma rhe_of_int: "rhe (of_int n) = n"
  by (simp add: rhe_def)

lemma rhe_range: "rhe x = \<lfloor>x\<rfloor> \<or> rhe x = \<lfloor>x\<rfloor> + 1"
  by (simp add: rhe_def Let_def)

lemma rhe_ge_floor: "\<lfloor>x\<rfloor> \<le> rhe x"
  using rhe_range [of x] by auto

lemma rhe_le_floor: "rhe x \<le> \<lfloor>x\<rfloor> + 1"
  using rhe_range [of x] by auto

lemma rhe_mono:
  assumes "x \<le> y"
  shows "rhe x \<le> rhe y"
proof (cases "\<lfloor>x\<rfloor> = \<lfloor>y\<rfloor>")
  case True
  then show ?thesis using assms by (auto simp: rhe_def Let_def)
next
  case False
  then have "\<lfloor>x\<rfloor> < \<lfloor>y\<rfloor>" using floor_mono [OF assms] by simp
  then have "\<lfloor>x\<rfloor> + 1 \<le> \<lfloor>y\<rfloor>" by simp
  then show ?thesis using rhe_le_floor [of x] rhe_ge_floor [of y] by linarith
qed

lemma rhe_minus: "rhe (- x) = - rhe x"
proof (cases "x = of_int \<lfloor>x\<rfloor>")
  case True
  then obtain n :: int where "x = of_int n" ..
  then have "rhe (- x) = rhe (of_int (- n))" by simp
  also have "\<dots> = - n" by (simp only: rhe_of_int)
  finally show ?thesis using \<open>x = of_int n\<close> by (simp add: rhe_of_int)
next
  case False
  then have lt: "of_int \<lfloor>x\<rfloor> < x"
    using of_int_floor_le [of x] by linarith
  have f: "\<lfloor>- x\<rfloor> = - \<lfloor>x\<rfloor> - 1"
  proof (rule floor_unique)
    have "x < of_int \<lfloor>x\<rfloor> + 1" by linarith
    then show "of_int (- \<lfloor>x\<rfloor> - 1) \<le> - x"
      unfolding of_int_diff of_int_minus of_int_1 by linarith
    show "- x < of_int (- \<lfloor>x\<rfloor> - 1) + 1"
      using lt unfolding of_int_diff of_int_minus of_int_1 by linarith
  qed
  show ?thesis
    using False by (auto simp: rhe_def Let_def f)
qed

lemma pow2_pos: "0 < (2::real) powi k"
  by (simp add: power_int_def)

lemma pow2_mono: "j \<le> k \<Longrightarrow> (2::real) powi j \<le> 2 powi k"
  by (rule power_int_increasing) simp_all

lemma pow2_split: "(2::real) powi (e + 1) = 2 ^ 53 * 2 powi (e - 52)"
proof -
  have "e + 1 = 53 + (e - 52)" by simp
  then have "(2::real) powi (e + 1) = 2 powi (53 + (e - 52))" by (rule arg_cong)
  also have "\<dots> = 2 powi 53 * 2 powi (e - 52)" by (rule power_int_add) simp
  finally show ?thesis by simp
qed

lemma pow2_split': "(2::real) powi e = 2 ^ 52 * 2 powi (e - 52)"
proof -
  have "e = 52 + (e - 52)" by simp
  then have "(2::real) powi e = 2 powi (52 + (e - 52))" by (rule arg_cong)
  also have "\<dots> = 2 powi 52 * 2 powi (e - 52)" by (rule power_int_add) simp
  finally show ?thesis by simp
qed

lemma floor_log2_eq:
  assumes "0 < x" "2 powi k \<le> x" "x < 2 powi (k + 1)"
  shows "\<lfloor>log 2 x\<rfloor> = k"
proof -
  have a: "(2::real) powr real_of_int k = 2 powi k"
    by (rule powr_real_of_int') simp_all
  have b: "(2::real) powr real_of_int (k + 1) = 2 powi (k + 1)"
    by (rule powr_real_of_int') simp_all
  have "2 powr real_of_int k \<le> x \<and> x < 2 powr (real_of_int k + 1)"
    using assms a b by simp
  then show ?thesis
    using floor_log_eq_powr_iff [of x 2 k] assms(1) by simp
qed

lemma floor_log2_bounds:
  assumes "0 < x"
  shows "2 powi \<lfloor>log 2 x\<rfloor> \<le> x \<and> x < 2 powi (\<lfloor>log 2 x\<rfloor> + 1)"
proof -
  have a: "(2::real) powr real_of_int k = 2 powi k" for k
    by (rule powr_real_of_int') simp_all
  have "2 powr real_of_int \<lfloor>log 2 x\<rfloor> \<le> x \<and> x < 2 powr (real_of_int \<lfloor>log 2 x\<rfloor> + 1)"
    using floor_log_eq_powr_iff [of x 2 "\<lfloor>log 2 x\<rfloor>"] assms by simp
  then show ?thesis
    using a [of "\<lfloor>log 2 x\<rfloor>"] a [of "\<lfloor>log 2 x\<rfloor> + 1"] by simp
qed

lemma expo_eq:
  assumes "2 powi k \<le> \<bar>x\<bar>" "\<bar>x\<bar> < 2 powi (k + 1)" "- 1022 \<le> k"
  shows "expo x = k"
proof -
  have "0 < \<bar>x\<bar>" using pow2_pos [of k] assms(1) by linarith
  then have "\<lfloor>log 2 \<bar>x\<bar>\<rfloor> = k" using assms by (intro floor_log2_eq)
  then show ?thesis using assms(3) by (simp add: expo_def)
qed

lemma expo_minus: "expo (- x) = expo x"
  by (simp add: expo_def)

lemma expo_ge: "- 1022 \<le> expo x"
  by (simp add: expo_def)

lemma expo_upper:
  assumes "x \<noteq> 0"
  shows "\<bar>x\<bar> < 2 powi (expo x + 1)"
proof -
  have "\<bar>x\<bar> < 2 powi (\<lfloor>log 2 \<bar>x\<bar>\<rfloor> + 1)"
    using floor_log2_bounds [of "\<bar>x\<bar>"] assms by simp
  also have "\<dots> \<le> 2 powi (expo x + 1)"
    by (rule pow2_mono) (simp add: expo_def)
  finally show ?thesis .
qed

lemma expo_lower:
  assumes "x \<noteq> 0" "- 1022 < expo x"
  shows "2 powi (expo x) \<le> \<bar>x\<bar>"
proof -
  have "expo x = \<lfloor>log 2 \<bar>x\<bar>\<rfloor>" using assms(2) by (simp add: expo_def max_def split: if_splits)
  then show ?thesis using floor_log2_bounds [of "\<bar>x\<bar>"] assms(1) by simp
qed

lemma expo_mono:
  assumes "x \<noteq> 0" "\<bar>x\<bar> \<le> \<bar>y\<bar>"
  shows "expo x \<le> expo y"
proof -
  have "log 2 \<bar>x\<bar> \<le> log 2 \<bar>y\<bar>" using assms by simp
  then have "\<lfloor>log 2 \<bar>x\<bar>\<rfloor> \<le> \<lfloor>log 2 \<bar>y\<bar>\<rfloor>" by (rule floor_mono)
  then show ?thesis by (simp add: expo_def)
qed

lemma ulp_pos: "0 < ulp x"
  by (simp add: ulp_def pow2_pos)

lemma ulp_minus: "ulp (- x) = ulp x"
  by (simp add: ulp_def expo_minus)

lemma quantize_zero: "quantize 0 = 0"
  by (simp add: quantize_def rhe_def)

lemma quantize_minus: "quantize (- x) = - quantize x"
  by (simp add: quantize_def ulp_minus rhe_minus)

lemma quantize_nonneg:
  assumes "0 \<le> x"
  shows "0 \<le> quantize x"
proof -
  have "0 \<le> x / ulp x" using assms ulp_pos [of x] by simp
  then have "rhe 0 \<le> rhe (x / ulp x)" by (rule rhe_mono)
  then have "0 \<le> rhe (x / ulp x)" using rhe_of_int [of 0] by simp
  then show ?thesis using ulp_pos [of x] by (simp add: quantize_def)
qed

lemma quantize_upper:
  assumes "0 < x"
  shows "quantize x \<le> 2 powi (expo x + 1)"
proof -
  have "x < 2 ^ 53 * ulp x"
    using expo_upper [of x] assms by (simp add: ulp_def pow2_split)
  then have "x / ulp x \<le> of_int (2 ^ 53)"
    using ulp_pos [of x] by (simp add: field_simps)
  then have "rhe (x / ulp x) \<le> rhe (of_int (2 ^ 53))" by (rule rhe_mono)
  then have "rhe (x / ulp x) \<le> 2 ^ 53" by (simp only: rhe_of_int)
  then have "of_int (rhe (x / ulp x)) \<le> (2 ^ 53 :: real)"
    by (metis of_int_le_iff of_int_numeral of_int_power)
  then have "of_int (rhe (x / ulp x)) * ulp x \<le> 2 ^ 53 * ulp x"
    using ulp_pos [of x] by (simp add: mult_right_mono)
  then show ?thesis by (simp add: quantize_def ulp_def pow2_split)
qed

lemma quantize_lower:
  assumes "0 < x" "- 1022 < expo x"
  shows "2 powi (expo x) \<le> quantize x"
proof -
  have "2 ^ 52 * ulp x \<le> x"
    using expo_lower [of x] assms pow2_split' [of "expo x"] by (simp add: ulp_def)
  then have "of_int (2 ^ 52) \<le> x / ulp x"
    using ulp_pos [of x] by (simp add: field_simps)
  then have "rhe (of_int (2 ^ 52)) \<le> rhe (x / ulp x)" by (rule rhe_mono)
  then have "2 ^ 52 \<le> rhe (x / ulp x)" by (simp only: rhe_of_int)
  then have "(2 ^ 52 :: real) \<le> of_int (rhe (x / ulp x))"
    by (metis of_int_le_iff of_int_numeral of_int_power)
  then have "2 ^ 52 * ulp x \<le> of_int (rhe (x / ulp x)) * ulp x"
    using ulp_pos [of x] by (simp add: mult_right_mono)
  then show ?thesis using pow2_split' [of "expo x"] by (simp add: quantize_def ulp_def)
qed

lemma quantize_mono_pos:
  assumes "0 < x" "x \<le> y"
  shows "quantize x \<le> quantize y"
proof (cases "expo x = expo y")
  case True
  then have u: "ulp x = ulp y" by (simp add: ulp_def)
  have "x / ulp y \<le> y / ulp y"
    using assms(2) ulp_pos [of y] by (simp add: divide_right_mono)
  then have "rhe (x / ulp y) \<le> rhe (y / ulp y)" by (rule rhe_mono)
  then have "(of_int (rhe (x / ulp y)) :: real) \<le> of_int (rhe (y / ulp y))" by simp
  then show ?thesis
    using ulp_pos [of y] by (simp add: quantize_def u mult_right_mono)
next
  case False
  have "expo x \<le> expo y" using assms by (intro expo_mono) simp_all
  then have lt: "expo x < expo y" using False by simp
  have "quantize x \<le> 2 powi (expo x + 1)" using assms(1) by (rule quantize_upper)
  also have "\<dots> \<le> 2 powi (expo y)" using lt by (intro pow2_mono) simp
  also have "\<dots> \<le> quantize y"
    using assms lt expo_ge [of x] by (intro quantize_lower) simp_all
  finally show ?thesis .
qed

lemma quantize_mono:
  assumes "x \<le> y"
  shows "quantize x \<le> quantize y"
proof -
  consider "0 < x" | "y < 0" | "x \<le> 0" "0 \<le> y" by linarith
  then show ?thesis
  proof cases
    case 1
    then show ?thesis using assms by (rule quantize_mono_pos)
  next
    case 2
    then have "quantize (- y) \<le> quantize (- x)"
      using assms by (intro quantize_mono_pos) simp_all
    then show ?thesis by (simp add: quantize_minus)
  next
    case 3
    have "quantize x = - quantize (- x)" by (simp add: quantize_minus)
    moreover have "0 \<le> quantize (- x)" using 3(1) by (intro quantize_nonneg) simp
    moreover have "0 \<le> quantize y" using 3(2) by (rule quantize_nonneg)
    ultimately show ?thesis by linarith
  qed
qed

lemma rnd_mono: "x \<le> y \<Longrightarrow> fl_le (rnd x) (rnd y)"
  by (auto simp: rnd_def quantize_mono)


lemma quantize_eval:
  assumes "2 powi k \<le> \<bar>x\<bar>" "\<bar>x\<bar> < 2 powi (k + 1)" "- 1022 \<le> k"
  shows "quantize x = of_int (rhe (x / 2 powi (k - 52))) * 2 powi (k - 52)"
  using expo_eq [OF assms] by (simp add: quantize_def ulp_def)

lemma rhe_eqI:
  assumes "\<bar>x - of_int n\<bar> < 1 / 2 \<or> (\<bar>x - of_int n\<bar> = 1 / 2 \<and> even n)"
  shows "rhe x = n"
proof -
  consider "\<lfloor>x\<rfloor> = n" | "\<lfloor>x\<rfloor> = n - 1"
  proof -
    have "\<bar>x - of_int n\<bar> \<le> 1 / 2" using assms by linarith
    then have "of_int n - 1 \<le> x" "x < of_int n + 1" by linarith+
    then have "of_int (n - 1) \<le> x" "x < of_int (n + 1)" by simp_all
    then have "n - 1 \<le> \<lfloor>x\<rfloor>" "\<lfloor>x\<rfloor> < n + 1"
      by (simp_all only: le_floor_iff floor_less_iff)
    then have "\<lfloor>x\<rfloor> = n \<or> \<lfloor>x\<rfloor> = n - 1" by linarith
    then show ?thesis using that by blast
  qed
  then show ?thesis
  proof cases
    case 1
    then show ?thesis using assms by (auto simp: rhe_def Let_def)
  next
    case 2
    have f: "of_int \<lfloor>x\<rfloor> = of_int n - (1::real)" using 2 by simp
    have le: "x < of_int n" using floor_correct [of x] f by linarith
    show ?thesis
    proof (cases "\<bar>x - of_int n\<bar> < 1 / 2")
      case True
      then have "1 / 2 < x - of_int \<lfloor>x\<rfloor>" using f by linarith
      then show ?thesis using 2 by (simp add: rhe_def Let_def)
    next
      case False
      then have e: "\<bar>x - of_int n\<bar> = 1 / 2" "even n" using assms by auto
      then have "x - of_int \<lfloor>x\<rfloor> = 1 / 2" using f le by linarith
      moreover have "odd \<lfloor>x\<rfloor>" using 2 e(2) by simp
      ultimately show ?thesis using 2 by (simp add: rhe_def Let_def)
    qed
  qed
qed

lemma overflow_threshold_gt: "2 ^ 1023 < overflow_threshold"
proof -
  have "(2::real) ^ 970 < 2 ^ 1023" by (rule power_strict_increasing) simp_all
  moreover have "(2::real) ^ 1024 = 2 * 2 ^ 1023" by simp
  ultimately show ?thesis unfolding overflow_threshold_def by linarith
qed



lemma rnd_Fin:
  assumes "\<bar>x\<bar> < 2 ^ 1023"
  shows "rnd x = Fin (quantize x)"
  using assms overflow_threshold_gt by (simp add: rnd_def abs_less_iff)

lemma rnd_eval:
  assumes "2 powi k \<le> \<bar>x\<bar>" "\<bar>x\<bar> < 2 powi (k + 1)" "- 1022 \<le> k" "k \<le> 1022"
    and "\<bar>x * 2 powi (52 - k) - of_int n\<bar> < 1 / 2 \<or>
         (\<bar>x * 2 powi (52 - k) - of_int n\<bar> = 1 / 2 \<and> even n)"
  shows "rnd x = Fin (of_int n * 2 powi (k - 52))"
proof -
  have "(2::real) powi (k + 1) \<le> 2 powi 1023"
    using assms(4) by (intro pow2_mono) simp
  then have "\<bar>x\<bar> < 2 ^ 1023" using assms(2) by simp
  then have r: "rnd x = Fin (quantize x)" by (rule rnd_Fin)
  have "x / 2 powi (k - 52) = x * 2 powi (52 - k)"
    using power_int_minus [of "2::real" "k - 52"] by (simp add: field_simps)
  then have "rhe (x / 2 powi (k - 52)) = n"
    using rhe_eqI [OF assms(5)] by simp
  then show ?thesis
    using quantize_eval [OF assms(1-3)] r by simp
qed

lemma rnd_zero: "rnd 0 = Fin 0"
  using overflow_threshold_gt by (simp add: rnd_def quantize_zero)

subsection \<open>Order and arithmetic on floats\<close>

lemma rnd_le_PInf: "fl_le (rnd x) PInf"
  by (simp add: rnd_def)

lemma NInf_le_rnd: "fl_le NInf (rnd x)"
  by (simp add: rnd_def)

lemma fl_lt_imp_le: "fl_lt x y \<Longrightarrow> fl_le x y"
  by (cases x; cases y) simp_all

lemma fl_le_not_lt: "fl_le x y \<Longrightarrow> \<not> fl_lt y x"
  by (cases x; cases y) simp_all

lemma fl_neg_anti: "fl_le x y \<Longrightarrow> fl_le (fl_neg y) (fl_neg x)"
  by (cases x; cases y) simp_all

lemma fl_neg_NaN: "fl_neg x = NaN \<longleftrightarrow> x = NaN"
  by (cases x) simp_all

lemma fl_add_NaN_left: "fl_add x y \<noteq> NaN \<Longrightarrow> x \<noteq> NaN \<and> y \<noteq> NaN"
  by (cases x; cases y) simp_all

lemma fl_add_mono_left:
  "fl_le x y \<Longrightarrow> fl_add x c \<noteq> NaN \<Longrightarrow> fl_add y c \<noteq> NaN \<Longrightarrow> fl_le (fl_add x c) (fl_add y c)"
  by (cases x; cases y; cases c) (simp_all add: rnd_mono rnd_le_PInf NInf_le_rnd)

lemma fl_add_mono_right:
  "fl_le x y \<Longrightarrow> fl_add c x \<noteq> NaN \<Longrightarrow> fl_add c y \<noteq> NaN \<Longrightarrow> fl_le (fl_add c x) (fl_add c y)"
  by (cases x; cases y; cases c) (simp_all add: rnd_mono rnd_le_PInf NInf_le_rnd)

lemma fl_sub_NaN: "fl_sub x y \<noteq> NaN \<Longrightarrow> x \<noteq> NaN \<and> y \<noteq> NaN"
  unfolding fl_sub_def using fl_add_NaN_left [of x "fl_neg y"] by (simp add: fl_neg_NaN)

lemma fl_sub_mono_left:
  "fl_le x y \<Longrightarrow> fl_sub x c \<noteq> NaN \<Longrightarrow> fl_sub y c \<noteq> NaN \<Longrightarrow> fl_le (fl_sub x c) (fl_sub y c)"
  unfolding fl_sub_def by (rule fl_add_mono_left)

lemma fl_sub_anti_right:
  "fl_le x y \<Longrightarrow> fl_sub c y \<noteq> NaN \<Longrightarrow> fl_sub c x \<noteq> NaN \<Longrightarrow> fl_le (fl_sub c y) (fl_sub c x)"
  unfolding fl_sub_def by (rule fl_add_mono_right) (rule fl_neg_anti)

lemma fl_mul_mono_left:
  "fl_le x y \<Longrightarrow> fl_lt (Fin 0) e \<Longrightarrow> fl_mul x e \<noteq> NaN \<Longrightarrow> fl_mul y e \<noteq> NaN \<Longrightarrow>
   fl_le (fl_mul x e) (fl_mul y e)"
  by (cases x; cases y; cases e) (auto simp: rnd_mono rnd_le_PInf NInf_le_rnd mult_right_mono split: if_splits)

lemma fl_max_NaN: "fl_max x (Fin f) \<noteq> NaN \<Longrightarrow> x \<noteq> NaN"
  by (cases x) (simp_all add: fl_max_def)

lemma fl_max_mono:
  "fl_le x y \<Longrightarrow> fl_le (fl_max x (Fin f)) (fl_max y (Fin f))"
  by (cases x; cases y) (auto simp: fl_max_def)


subsection \<open>The binary64 model\<close>

lemma fl_min_diffusion_floor_value:
  "fl_min_diffusion_floor = Fin (7378697629483821 / 73786976294838206464)"
  unfolding fl_min_diffusion_floor_def
  using rnd_eval [of "- 14" "1 / 10000" 7378697629483821] by simp

lemma fl_calculate_unex_diffusion_steps:
  assumes "fl_truediv T B = Inr q"
  shows "fl_calculate_unex_diffusion T B E_h S al be ga de =
     Inr (fl_max (fl_add (fl_sub (fl_mul al q) (fl_mul be E_h))
                         (fl_mul ga (fl_max (Fin 0) S)))
                 fl_min_diffusion_floor)"
  by (simp add: fl_calculate_unex_diffusion_def assms)

lemma fl_calculate_unex_diffusion_Inr:
  assumes "fl_calculate_unex_diffusion T B E_h S al be ga de = Inr D"
  obtains q where "fl_truediv T B = Inr q"
    and "D = fl_max (fl_add (fl_sub (fl_mul al q) (fl_mul be E_h))
                           (fl_mul ga (fl_max (Fin 0) S)))
                   fl_min_diffusion_floor"
  using assms by (auto simp: fl_calculate_unex_diffusion_def split: sum.splits)

lemma fl_max_floor_NaN: "fl_max x fl_min_diffusion_floor \<noteq> NaN \<Longrightarrow> x \<noteq> NaN"
  unfolding fl_min_diffusion_floor_value by (rule fl_max_NaN)

lemma fl_max_floor_mono:
  "fl_le x y \<Longrightarrow> fl_le (fl_max x fl_min_diffusion_floor) (fl_max y fl_min_diffusion_floor)"
  unfolding fl_min_diffusion_floor_value by (rule fl_max_mono)



lemma fl_max_zero_pos: "fl_lt (Fin 0) S \<Longrightarrow> fl_max (Fin 0) S = S"
  by (simp add: fl_max_def)

lemma rnd_one: "rnd 1 = Fin 1"
  using rnd_eval [of 0 1 "2 ^ 52"] by simp

lemma fl_pow_two_one: "fl_pow_two (Fin 1) = Inr (Fin 1)"
  by (simp add: rnd_one)

lemma fl_confinement_time_one: "fl_confinement_time (Fin 1) D = fl_truediv (Fin 1) D"
  unfolding fl_confinement_time_def fl_pow_two_one by simp

lemma fl_bohm_diffusion_steps:
  "fl_truediv T B = Inr q \<Longrightarrow> fl_bohm_diffusion k T B = Inr (fl_mul k q)"
  by (simp add: fl_bohm_diffusion_def)

lemma fl_neoclassical_diffusion_steps:
  "fl_pow_half T = Inr r \<Longrightarrow> fl_pow_two B = Inr b2 \<Longrightarrow> fl_truediv r b2 = Inr q \<Longrightarrow>
   fl_neoclassical_diffusion k T B = Inr (fl_mul k q)"
  by (simp add: fl_neoclassical_diffusion_def)

lemma fl_main_calc_steps:
  assumes "fl_calculate_unex_diffusion T B E_h S al be ga de = Inr d"
    and "fl_confinement_time (Fin 1) d = Inr t"
    and "fl_bohm_diffusion (Fin 1) T B = Inr db"
    and "fl_confinement_time (Fin 1) db = Inr tb"
    and "fl_neoclassical_diffusion (rnd (1 / 10)) T B = Inr dn"
    and "fl_confinement_time (Fin 1) dn = Inr tn"
  shows "fl_main_calc T B E_h S al be ga de =
    Inr \<lparr> fl_D_UNEX = d, fl_tau_E_unex = t, fl_D_Bohm = db, fl_tau_E_bohm = tb,
          fl_D_Neoclassical = dn, fl_tau_E_neoclassical = tn,
          fl_msg_bohm = fl_compare_tau t tb, fl_msg_neoclassical = fl_compare_tau t tn \<rparr>"
  by (simp add: fl_main_calc_def assms)

lemma fl_main_calc_Inr:
  assumes "fl_main_calc T B E_h S al be ga de = Inr r"
  shows "fl_calculate_unex_diffusion T B E_h S al be ga de = Inr (fl_D_UNEX r)"
    and "fl_confinement_time (Fin 1) (fl_D_UNEX r) = Inr (fl_tau_E_unex r)"
    and "fl_bohm_diffusion (Fin 1) T B = Inr (fl_D_Bohm r)"
    and "fl_confinement_time (Fin 1) (fl_D_Bohm r) = Inr (fl_tau_E_bohm r)"
    and "fl_neoclassical_diffusion (rnd (1 / 10)) T B = Inr (fl_D_Neoclassical r)"
    and "fl_confinement_time (Fin 1) (fl_D_Neoclassical r) = Inr (fl_tau_E_neoclassical r)"
    and "fl_msg_bohm r = fl_compare_tau (fl_tau_E_unex r) (fl_tau_E_bohm r)"
    and "fl_msg_neoclassical r = fl_compare_tau (fl_tau_E_unex r) (fl_tau_E_neoclassical r)"
  using assms by (auto simp: fl_main_calc_def Let_def split: sum.splits)

lemma fl_truediv_one_anti:
  assumes "fl_lt (Fin 0) D1" "fl_le D1 D2"
    and "fl_truediv (Fin 1) D1 = Inr t1" "fl_truediv (Fin 1) D2 = Inr t2"
  shows "fl_le t2 t1"
proof (cases D1)
  case (Fin d1)
  then have p1: "0 < d1" using assms(1) by simp
  show ?thesis
  proof (cases D2)
    case (Fin d2)
    then have "d1 \<le> d2" using assms(2) \<open>D1 = Fin d1\<close> by simp
    then have "1 / d2 \<le> 1 / d1" using p1 by (simp add: frac_le)
    then have "fl_le (rnd (1 / d2)) (rnd (1 / d1))" by (rule rnd_mono)
    then show ?thesis using assms(3,4) p1 \<open>d1 \<le> d2\<close> \<open>D1 = Fin d1\<close> Fin by auto
  next
    case PInf
    have "fl_le (rnd 0) (rnd (1 / d1))" using p1 by (intro rnd_mono) simp
    then show ?thesis using assms(3,4) p1 \<open>D1 = Fin d1\<close> PInf by (auto simp: rnd_zero)
  next
    case NInf
    then show ?thesis using assms(2) \<open>D1 = Fin d1\<close> by simp
  next
    case NaN
    then show ?thesis using assms(2) \<open>D1 = Fin d1\<close> by simp
  qed
next
  case PInf
  then show ?thesis using assms by (cases D2) auto
next
  case NInf
  then show ?thesis using assms(1) by simp
next
  case NaN
  then show ?thesis using assms(1) by simp
qed

lemma fl_le_total: "x \<noteq> NaN \<Longrightarrow> y \<noteq> NaN \<Longrightarrow> fl_lt x y \<or> fl_le y x"
  by (cases x; cases y) auto

lemma fl_lt_zero_not_NaN: "fl_lt (Fin 0) x \<Longrightarrow> x \<noteq> NaN"
  by (cases x) simp_all

lemma fl_tenth_value: "rnd (1 / 10) = Fin (3602879701896397 / 36028797018963968)"
  using rnd_eval [of "- 4" "1 / 10" 7205759403792794] by simp

lemma fl_compare_one_direction:
  assumes "fl_lt (Fin 0) D1" "fl_lt (Fin 0) D2"
    and "fl_confinement_time (Fin 1) D1 = Inr t1" "fl_confinement_time (Fin 1) D2 = Inr t2"
  shows "(fl_lt t2 t1 \<longrightarrow> fl_lt D1 D2) \<and>
         (fl_compare_tau t1 t2 = Better \<longrightarrow> fl_lt D1 D2) \<and>
         (fl_lt D1 D2 \<longrightarrow> fl_le t2 t1)"
proof -
  have e1: "fl_truediv (Fin 1) D1 = Inr t1" and e2: "fl_truediv (Fin 1) D2 = Inr t2"
    using assms(3,4) by (simp_all add: fl_confinement_time_one)
  have a: "fl_lt D1 D2" if "fl_lt t2 t1"
  proof (rule ccontr)
    assume "\<not> fl_lt D1 D2"
    then have "fl_le D2 D1"
      using fl_le_total [of D1 D2] assms(1,2) fl_lt_zero_not_NaN by blast
    then have "fl_le t1 t2"
      using assms(2) e1 e2 by (intro fl_truediv_one_anti [of D2 D1 t2 t1])
    then show False using that fl_le_not_lt by blast
  qed
  have c: "fl_le t2 t1" if "fl_lt D1 D2"
    using that assms(1) e1 e2 by (intro fl_truediv_one_anti [of D1 D2 t1 t2]) (simp_all add: fl_lt_imp_le)
  have b: "fl_lt D1 D2" if "fl_compare_tau t1 t2 = Better"
    using that a by (simp add: fl_compare_tau_def split: if_splits)
  show ?thesis using a b c by blast
qed

text \<open>
  The clamp, the unused argument and the division fault, which are stated on the exact
  reading below, hold on the binary64 reading in the same words.
\<close>

lemma fl_clamp:
  "fl_lt S_local (Fin 0) \<Longrightarrow>
   fl_calculate_unex_diffusion T B E_h S_local alpha beta gamma delta =
   fl_calculate_unex_diffusion T B E_h (Fin 0) alpha beta gamma delta"
  by (cases S_local) (simp_all add: fl_calculate_unex_diffusion_def fl_max_def)

lemma fl_delta_unused:
  "fl_calculate_unex_diffusion T B E_h S_local alpha beta gamma delta1 =
   fl_calculate_unex_diffusion T B E_h S_local alpha beta gamma delta2"
  by (simp add: fl_calculate_unex_diffusion_def)

lemma fl_division_fault:
  "fl_calculate_unex_diffusion T (Fin 0) E_h S_local alpha beta gamma delta =
     Inl ZeroDivisionError"
  by (simp add: fl_calculate_unex_diffusion_def)

subsection \<open>Runs on doubles\<close>

text \<open>
  Each run evaluates the model at given doubles, one rounding at a time. The decimal
  values that are not dyadic are written as the fractions they are as doubles:
  \<open>0.4 = 3602879701896397 / 2^53\<close>, \<open>0.2 = 3602879701896397 / 2^54\<close>,
  \<open>0.1 = 3602879701896397 / 2^55\<close>, \<open>0.08 = 5764607523034235 / 2^56\<close> and
  \<open>0.01 = 5764607523034235 / 2^59\<close>.
\<close>

lemma fl_decimal_literals:
  "rnd (4 / 10) = Fin (3602879701896397 / 9007199254740992)"
  "rnd (2 / 10) = Fin (3602879701896397 / 18014398509481984)"
  "rnd (1 / 10) = Fin (3602879701896397 / 36028797018963968)"
  "rnd (8 / 100) = Fin (5764607523034235 / 72057594037927936)"
  "rnd (1 / 100) = Fin (5764607523034235 / 576460752303423488)"
  "rnd (45 / 100) = Fin (8106479329266893 / 18014398509481984)"
proof -
  show "rnd (4 / 10) = Fin (3602879701896397 / 9007199254740992)"
    using rnd_eval [of "- 2" "4 / 10" 7205759403792794] by simp
  show "rnd (2 / 10) = Fin (3602879701896397 / 18014398509481984)"
    using rnd_eval [of "- 3" "2 / 10" 7205759403792794] by simp
  show "rnd (1 / 10) = Fin (3602879701896397 / 36028797018963968)"
    using rnd_eval [of "- 4" "1 / 10" 7205759403792794] by simp
  show "rnd (8 / 100) = Fin (5764607523034235 / 72057594037927936)"
    using rnd_eval [of "- 4" "8 / 100" 5764607523034235] by simp
  show "rnd (1 / 100) = Fin (5764607523034235 / 576460752303423488)"
    using rnd_eval [of "- 7" "1 / 100" 5764607523034235] by simp
  show "rnd (45 / 100) = Fin (8106479329266893 / 18014398509481984)"
    using rnd_eval [of "- 2" "45 / 100" 8106479329266893] by simp
qed

lemma fl_run_default:
  "fl_calculate_unex_diffusion (Fin 10) (Fin 5) (Fin 1) (Fin (1 / 2)) (Fin 1) (Fin 1) (Fin 1) (Fin 1) =
     Inr (Fin (3 / 2))"
proof -
  have q: "fl_truediv (Fin 10) (Fin 5) = Inr (Fin 2)"
    using rnd_eval [of 1 "10 / 5" 4503599627370496] by (simp add: fl_sub_def)
  have a: "fl_mul (Fin 1) (Fin 2) = Fin 2"
    using rnd_eval [of 1 "1 * 2" 4503599627370496] by (simp add: fl_sub_def)
  have b: "fl_mul (Fin 1) (Fin 1) = Fin 1"
    using rnd_eval [of 0 "1 * 1" 4503599627370496] by (simp add: fl_sub_def)
  have m: "fl_max (Fin 0) (Fin (1 / 2)) = Fin (1 / 2)"
    by (simp add: fl_max_def)
  have c: "fl_mul (Fin 1) (Fin (1 / 2)) = Fin (1 / 2)"
    using rnd_eval [of "- 1" "1 * (1 / 2)" 4503599627370496] by (simp add: fl_sub_def)
  have s: "fl_sub (Fin 2) (Fin 1) = Fin 1"
    using rnd_eval [of 0 "2 + - 1" 4503599627370496] by (simp add: fl_sub_def)
  have r: "fl_add (Fin 1) (Fin (1 / 2)) = Fin (3 / 2)"
    using rnd_eval [of 0 "1 + (1 / 2)" 6755399441055744] by (simp add: fl_sub_def)
  have f: "fl_max (Fin (3 / 2)) fl_min_diffusion_floor = Fin (3 / 2)"
    by (simp add: fl_max_def fl_min_diffusion_floor_value)
  show ?thesis
    unfolding fl_calculate_unex_diffusion_steps [OF q] m a b c s r f ..
qed


lemma fl_run_beta_two:
  "fl_calculate_unex_diffusion (Fin 10) (Fin 5) (Fin 1) (Fin (1 / 2)) (Fin 1) (Fin 2) (Fin 1) (Fin 1) =
     Inr (Fin (1 / 2))"
proof -
  have q: "fl_truediv (Fin 10) (Fin 5) = Inr (Fin 2)"
    using rnd_eval [of 1 "10 / 5" 4503599627370496] by (simp add: fl_sub_def)
  have a: "fl_mul (Fin 1) (Fin 2) = Fin 2"
    using rnd_eval [of 1 "1 * 2" 4503599627370496] by (simp add: fl_sub_def)
  have b: "fl_mul (Fin 2) (Fin 1) = Fin 2"
    using rnd_eval [of 1 "2 * 1" 4503599627370496] by (simp add: fl_sub_def)
  have m: "fl_max (Fin 0) (Fin (1 / 2)) = Fin (1 / 2)"
    by (simp add: fl_max_def)
  have c: "fl_mul (Fin 1) (Fin (1 / 2)) = Fin (1 / 2)"
    using rnd_eval [of "- 1" "1 * (1 / 2)" 4503599627370496] by (simp add: fl_sub_def)
  have s: "fl_sub (Fin 2) (Fin 2) = Fin 0"
    using rnd_zero by (simp add: fl_sub_def)
  have r: "fl_add (Fin 0) (Fin (1 / 2)) = Fin (1 / 2)"
    using rnd_eval [of "- 1" "0 + (1 / 2)" 4503599627370496] by (simp add: fl_sub_def)
  have f: "fl_max (Fin (1 / 2)) fl_min_diffusion_floor = Fin (1 / 2)"
    by (simp add: fl_max_def fl_min_diffusion_floor_value)
  show ?thesis
    unfolding fl_calculate_unex_diffusion_steps [OF q] m a b c s r f ..
qed

lemma fl_run_gamma_two:
  "fl_calculate_unex_diffusion (Fin 10) (Fin 5) (Fin 1) (Fin (1 / 2)) (Fin 1) (Fin 1) (Fin 2) (Fin 1) =
     Inr (Fin 2)"
proof -
  have q: "fl_truediv (Fin 10) (Fin 5) = Inr (Fin 2)"
    using rnd_eval [of 1 "10 / 5" 4503599627370496] by (simp add: fl_sub_def)
  have a: "fl_mul (Fin 1) (Fin 2) = Fin 2"
    using rnd_eval [of 1 "1 * 2" 4503599627370496] by (simp add: fl_sub_def)
  have b: "fl_mul (Fin 1) (Fin 1) = Fin 1"
    using rnd_eval [of 0 "1 * 1" 4503599627370496] by (simp add: fl_sub_def)
  have m: "fl_max (Fin 0) (Fin (1 / 2)) = Fin (1 / 2)"
    by (simp add: fl_max_def)
  have c: "fl_mul (Fin 2) (Fin (1 / 2)) = Fin 1"
    using rnd_eval [of 0 "2 * (1 / 2)" 4503599627370496] by (simp add: fl_sub_def)
  have s: "fl_sub (Fin 2) (Fin 1) = Fin 1"
    using rnd_eval [of 0 "2 + - 1" 4503599627370496] by (simp add: fl_sub_def)
  have r: "fl_add (Fin 1) (Fin 1) = Fin 2"
    using rnd_eval [of 1 "1 + 1" 4503599627370496] by (simp add: fl_sub_def)
  have f: "fl_max (Fin 2) fl_min_diffusion_floor = Fin 2"
    by (simp add: fl_max_def fl_min_diffusion_floor_value)
  show ?thesis
    unfolding fl_calculate_unex_diffusion_steps [OF q] m a b c s r f ..
qed

lemma fl_run_alpha_two:
  "fl_calculate_unex_diffusion (Fin 10) (Fin 5) (Fin 1) (Fin (1 / 2)) (Fin 2) (Fin 1) (Fin 1) (Fin 1) =
     Inr (Fin (7 / 2))"
proof -
  have q: "fl_truediv (Fin 10) (Fin 5) = Inr (Fin 2)"
    using rnd_eval [of 1 "10 / 5" 4503599627370496] by (simp add: fl_sub_def)
  have a: "fl_mul (Fin 2) (Fin 2) = Fin 4"
    using rnd_eval [of 2 "2 * 2" 4503599627370496] by (simp add: fl_sub_def)
  have b: "fl_mul (Fin 1) (Fin 1) = Fin 1"
    using rnd_eval [of 0 "1 * 1" 4503599627370496] by (simp add: fl_sub_def)
  have m: "fl_max (Fin 0) (Fin (1 / 2)) = Fin (1 / 2)"
    by (simp add: fl_max_def)
  have c: "fl_mul (Fin 1) (Fin (1 / 2)) = Fin (1 / 2)"
    using rnd_eval [of "- 1" "1 * (1 / 2)" 4503599627370496] by (simp add: fl_sub_def)
  have s: "fl_sub (Fin 4) (Fin 1) = Fin 3"
    using rnd_eval [of 1 "4 + - 1" 6755399441055744] by (simp add: fl_sub_def)
  have r: "fl_add (Fin 3) (Fin (1 / 2)) = Fin (7 / 2)"
    using rnd_eval [of 1 "3 + (1 / 2)" 7881299347898368] by (simp add: fl_sub_def)
  have f: "fl_max (Fin (7 / 2)) fl_min_diffusion_floor = Fin (7 / 2)"
    by (simp add: fl_max_def fl_min_diffusion_floor_value)
  show ?thesis
    unfolding fl_calculate_unex_diffusion_steps [OF q] m a b c s r f ..
qed

lemma fl_run_tiny_E_beta_one:
  "fl_calculate_unex_diffusion (Fin 10) (Fin 5) (Fin (1 / 1152921504606846976)) (Fin (1 / 2)) (Fin 1) (Fin 1) (Fin 1) (Fin 1) =
     Inr (Fin (5 / 2))"
proof -
  have q: "fl_truediv (Fin 10) (Fin 5) = Inr (Fin 2)"
    using rnd_eval [of 1 "10 / 5" 4503599627370496] by (simp add: fl_sub_def)
  have a: "fl_mul (Fin 1) (Fin 2) = Fin 2"
    using rnd_eval [of 1 "1 * 2" 4503599627370496] by (simp add: fl_sub_def)
  have b: "fl_mul (Fin 1) (Fin (1 / 1152921504606846976)) = Fin (1 / 1152921504606846976)"
    using rnd_eval [of "- 60" "1 * (1 / 1152921504606846976)" 4503599627370496] by (simp add: fl_sub_def)
  have m: "fl_max (Fin 0) (Fin (1 / 2)) = Fin (1 / 2)"
    by (simp add: fl_max_def)
  have c: "fl_mul (Fin 1) (Fin (1 / 2)) = Fin (1 / 2)"
    using rnd_eval [of "- 1" "1 * (1 / 2)" 4503599627370496] by (simp add: fl_sub_def)
  have s: "fl_sub (Fin 2) (Fin (1 / 1152921504606846976)) = Fin 2"
    using rnd_eval [of 0 "2 + - (1 / 1152921504606846976)" 9007199254740992] by (simp add: fl_sub_def)
  have r: "fl_add (Fin 2) (Fin (1 / 2)) = Fin (5 / 2)"
    using rnd_eval [of 1 "2 + (1 / 2)" 5629499534213120] by (simp add: fl_sub_def)
  have f: "fl_max (Fin (5 / 2)) fl_min_diffusion_floor = Fin (5 / 2)"
    by (simp add: fl_max_def fl_min_diffusion_floor_value)
  show ?thesis
    unfolding fl_calculate_unex_diffusion_steps [OF q] m a b c s r f ..
qed

lemma fl_run_tiny_E_beta_two:
  "fl_calculate_unex_diffusion (Fin 10) (Fin 5) (Fin (1 / 1152921504606846976)) (Fin (1 / 2)) (Fin 1) (Fin 2) (Fin 1) (Fin 1) =
     Inr (Fin (5 / 2))"
proof -
  have q: "fl_truediv (Fin 10) (Fin 5) = Inr (Fin 2)"
    using rnd_eval [of 1 "10 / 5" 4503599627370496] by (simp add: fl_sub_def)
  have a: "fl_mul (Fin 1) (Fin 2) = Fin 2"
    using rnd_eval [of 1 "1 * 2" 4503599627370496] by (simp add: fl_sub_def)
  have b: "fl_mul (Fin 2) (Fin (1 / 1152921504606846976)) = Fin (1 / 576460752303423488)"
    using rnd_eval [of "- 59" "2 * (1 / 1152921504606846976)" 4503599627370496] by (simp add: fl_sub_def)
  have m: "fl_max (Fin 0) (Fin (1 / 2)) = Fin (1 / 2)"
    by (simp add: fl_max_def)
  have c: "fl_mul (Fin 1) (Fin (1 / 2)) = Fin (1 / 2)"
    using rnd_eval [of "- 1" "1 * (1 / 2)" 4503599627370496] by (simp add: fl_sub_def)
  have s: "fl_sub (Fin 2) (Fin (1 / 576460752303423488)) = Fin 2"
    using rnd_eval [of 0 "2 + - (1 / 576460752303423488)" 9007199254740992] by (simp add: fl_sub_def)
  have r: "fl_add (Fin 2) (Fin (1 / 2)) = Fin (5 / 2)"
    using rnd_eval [of 1 "2 + (1 / 2)" 5629499534213120] by (simp add: fl_sub_def)
  have f: "fl_max (Fin (5 / 2)) fl_min_diffusion_floor = Fin (5 / 2)"
    by (simp add: fl_max_def fl_min_diffusion_floor_value)
  show ?thesis
    unfolding fl_calculate_unex_diffusion_steps [OF q] m a b c s r f ..
qed

lemma fl_run_tiny_S_gamma_one:
  "fl_calculate_unex_diffusion (Fin 10) (Fin 5) (Fin 1) (Fin (1 / 1152921504606846976)) (Fin 1) (Fin 1) (Fin 1) (Fin 1) =
     Inr (Fin 1)"
proof -
  have q: "fl_truediv (Fin 10) (Fin 5) = Inr (Fin 2)"
    using rnd_eval [of 1 "10 / 5" 4503599627370496] by (simp add: fl_sub_def)
  have a: "fl_mul (Fin 1) (Fin 2) = Fin 2"
    using rnd_eval [of 1 "1 * 2" 4503599627370496] by (simp add: fl_sub_def)
  have b: "fl_mul (Fin 1) (Fin 1) = Fin 1"
    using rnd_eval [of 0 "1 * 1" 4503599627370496] by (simp add: fl_sub_def)
  have m: "fl_max (Fin 0) (Fin (1 / 1152921504606846976)) = Fin (1 / 1152921504606846976)"
    by (simp add: fl_max_def)
  have c: "fl_mul (Fin 1) (Fin (1 / 1152921504606846976)) = Fin (1 / 1152921504606846976)"
    using rnd_eval [of "- 60" "1 * (1 / 1152921504606846976)" 4503599627370496] by (simp add: fl_sub_def)
  have s: "fl_sub (Fin 2) (Fin 1) = Fin 1"
    using rnd_eval [of 0 "2 + - 1" 4503599627370496] by (simp add: fl_sub_def)
  have r: "fl_add (Fin 1) (Fin (1 / 1152921504606846976)) = Fin 1"
    using rnd_eval [of 0 "1 + (1 / 1152921504606846976)" 4503599627370496] by (simp add: fl_sub_def)
  have f: "fl_max (Fin 1) fl_min_diffusion_floor = Fin 1"
    by (simp add: fl_max_def fl_min_diffusion_floor_value)
  show ?thesis
    unfolding fl_calculate_unex_diffusion_steps [OF q] m a b c s r f ..
qed

lemma fl_run_tiny_S_gamma_two:
  "fl_calculate_unex_diffusion (Fin 10) (Fin 5) (Fin 1) (Fin (1 / 1152921504606846976)) (Fin 1) (Fin 1) (Fin 2) (Fin 1) =
     Inr (Fin 1)"
proof -
  have q: "fl_truediv (Fin 10) (Fin 5) = Inr (Fin 2)"
    using rnd_eval [of 1 "10 / 5" 4503599627370496] by (simp add: fl_sub_def)
  have a: "fl_mul (Fin 1) (Fin 2) = Fin 2"
    using rnd_eval [of 1 "1 * 2" 4503599627370496] by (simp add: fl_sub_def)
  have b: "fl_mul (Fin 1) (Fin 1) = Fin 1"
    using rnd_eval [of 0 "1 * 1" 4503599627370496] by (simp add: fl_sub_def)
  have m: "fl_max (Fin 0) (Fin (1 / 1152921504606846976)) = Fin (1 / 1152921504606846976)"
    by (simp add: fl_max_def)
  have c: "fl_mul (Fin 2) (Fin (1 / 1152921504606846976)) = Fin (1 / 576460752303423488)"
    using rnd_eval [of "- 59" "2 * (1 / 1152921504606846976)" 4503599627370496] by (simp add: fl_sub_def)
  have s: "fl_sub (Fin 2) (Fin 1) = Fin 1"
    using rnd_eval [of 0 "2 + - 1" 4503599627370496] by (simp add: fl_sub_def)
  have r: "fl_add (Fin 1) (Fin (1 / 576460752303423488)) = Fin 1"
    using rnd_eval [of 0 "1 + (1 / 576460752303423488)" 4503599627370496] by (simp add: fl_sub_def)
  have f: "fl_max (Fin 1) fl_min_diffusion_floor = Fin 1"
    by (simp add: fl_max_def fl_min_diffusion_floor_value)
  show ?thesis
    unfolding fl_calculate_unex_diffusion_steps [OF q] m a b c s r f ..
qed

lemma fl_run_tiny_T_alpha_one:
  "fl_calculate_unex_diffusion (Fin (1 / 1152921504606846976)) (Fin 1) (Fin 1) (Fin 1) (Fin 1) (Fin 0) (Fin 1) (Fin 1) =
     Inr (Fin 1)"
proof -
  have q: "fl_truediv (Fin (1 / 1152921504606846976)) (Fin 1) = Inr (Fin (1 / 1152921504606846976))"
    using rnd_eval [of "- 60" "(1 / 1152921504606846976) / 1" 4503599627370496] by (simp add: fl_sub_def)
  have a: "fl_mul (Fin 1) (Fin (1 / 1152921504606846976)) = Fin (1 / 1152921504606846976)"
    using rnd_eval [of "- 60" "1 * (1 / 1152921504606846976)" 4503599627370496] by (simp add: fl_sub_def)
  have b: "fl_mul (Fin 0) (Fin 1) = Fin 0"
    using rnd_zero by (simp add: fl_sub_def)
  have m: "fl_max (Fin 0) (Fin 1) = Fin 1"
    by (simp add: fl_max_def)
  have c: "fl_mul (Fin 1) (Fin 1) = Fin 1"
    using rnd_eval [of 0 "1 * 1" 4503599627370496] by (simp add: fl_sub_def)
  have s: "fl_sub (Fin (1 / 1152921504606846976)) (Fin 0) = Fin (1 / 1152921504606846976)"
    using rnd_eval [of "- 60" "(1 / 1152921504606846976) + - 0" 4503599627370496] by (simp add: fl_sub_def)
  have r: "fl_add (Fin (1 / 1152921504606846976)) (Fin 1) = Fin 1"
    using rnd_eval [of 0 "(1 / 1152921504606846976) + 1" 4503599627370496] by (simp add: fl_sub_def)
  have f: "fl_max (Fin 1) fl_min_diffusion_floor = Fin 1"
    by (simp add: fl_max_def fl_min_diffusion_floor_value)
  show ?thesis
    unfolding fl_calculate_unex_diffusion_steps [OF q] m a b c s r f ..
qed

lemma fl_run_tiny_T_alpha_two:
  "fl_calculate_unex_diffusion (Fin (1 / 1152921504606846976)) (Fin 1) (Fin 1) (Fin 1) (Fin 2) (Fin 0) (Fin 1) (Fin 1) =
     Inr (Fin 1)"
proof -
  have q: "fl_truediv (Fin (1 / 1152921504606846976)) (Fin 1) = Inr (Fin (1 / 1152921504606846976))"
    using rnd_eval [of "- 60" "(1 / 1152921504606846976) / 1" 4503599627370496] by (simp add: fl_sub_def)
  have a: "fl_mul (Fin 2) (Fin (1 / 1152921504606846976)) = Fin (1 / 576460752303423488)"
    using rnd_eval [of "- 59" "2 * (1 / 1152921504606846976)" 4503599627370496] by (simp add: fl_sub_def)
  have b: "fl_mul (Fin 0) (Fin 1) = Fin 0"
    using rnd_zero by (simp add: fl_sub_def)
  have m: "fl_max (Fin 0) (Fin 1) = Fin 1"
    by (simp add: fl_max_def)
  have c: "fl_mul (Fin 1) (Fin 1) = Fin 1"
    using rnd_eval [of 0 "1 * 1" 4503599627370496] by (simp add: fl_sub_def)
  have s: "fl_sub (Fin (1 / 576460752303423488)) (Fin 0) = Fin (1 / 576460752303423488)"
    using rnd_eval [of "- 59" "(1 / 576460752303423488) + - 0" 4503599627370496] by (simp add: fl_sub_def)
  have r: "fl_add (Fin (1 / 576460752303423488)) (Fin 1) = Fin 1"
    using rnd_eval [of 0 "(1 / 576460752303423488) + 1" 4503599627370496] by (simp add: fl_sub_def)
  have f: "fl_max (Fin 1) fl_min_diffusion_floor = Fin 1"
    by (simp add: fl_max_def fl_min_diffusion_floor_value)
  show ?thesis
    unfolding fl_calculate_unex_diffusion_steps [OF q] m a b c s r f ..
qed

lemma fl_run_bohm_tie:
  "fl_calculate_unex_diffusion (Fin 9) (Fin 20) (Fin 1) (Fin 1) (Fin 1) (Fin 1) (Fin 1) (Fin (5764607523034235 / 576460752303423488)) =
     Inr (Fin (2026619832316723 / 4503599627370496))"
proof -
  have q: "fl_truediv (Fin 9) (Fin 20) = Inr (Fin (8106479329266893 / 18014398509481984))"
    using rnd_eval [of "- 2" "9 / 20" 8106479329266893] by (simp add: fl_sub_def)
  have a: "fl_mul (Fin 1) (Fin (8106479329266893 / 18014398509481984)) = Fin (8106479329266893 / 18014398509481984)"
    using rnd_eval [of "- 2" "1 * (8106479329266893 / 18014398509481984)" 8106479329266893] by (simp add: fl_sub_def)
  have b: "fl_mul (Fin 1) (Fin 1) = Fin 1"
    using rnd_eval [of 0 "1 * 1" 4503599627370496] by (simp add: fl_sub_def)
  have m: "fl_max (Fin 0) (Fin 1) = Fin 1"
    by (simp add: fl_max_def)
  have c: "fl_mul (Fin 1) (Fin 1) = Fin 1"
    using rnd_eval [of 0 "1 * 1" 4503599627370496] by (simp add: fl_sub_def)
  have s: "fl_sub (Fin (8106479329266893 / 18014398509481984)) (Fin 1) = Fin (- (2476979795053773 / 4503599627370496))"
    using rnd_eval [of "- 1" "(8106479329266893 / 18014398509481984) + - 1" "- 4953959590107546"] by (simp add: fl_sub_def)
  have r: "fl_add (Fin (- (2476979795053773 / 4503599627370496))) (Fin 1) = Fin (2026619832316723 / 4503599627370496)"
    using rnd_eval [of "- 2" "(- (2476979795053773 / 4503599627370496)) + 1" 8106479329266892] by (simp add: fl_sub_def)
  have f: "fl_max (Fin (2026619832316723 / 4503599627370496)) fl_min_diffusion_floor = Fin (2026619832316723 / 4503599627370496)"
    by (simp add: fl_max_def fl_min_diffusion_floor_value)
  show ?thesis
    unfolding fl_calculate_unex_diffusion_steps [OF q] m a b c s r f ..
qed

lemma fl_main_run_bohm_tie:
  "fl_main_calc (Fin 9) (Fin 20) (Fin 1) (Fin 1) (Fin 1) (Fin 1) (Fin 1) (Fin (5764607523034235 / 576460752303423488)) =
     Inr \<lparr> fl_D_UNEX = Fin (2026619832316723 / 4503599627370496), fl_tau_E_unex = Fin (2501999792983609 / 1125899906842624),
           fl_D_Bohm = Fin (8106479329266893 / 18014398509481984), fl_tau_E_bohm = Fin (2501999792983609 / 1125899906842624),
           fl_D_Neoclassical = Fin (3458764513820541 / 4611686018427387904),
           fl_tau_E_neoclassical = Fin (5864062014805333 / 4398046511104),
           fl_msg_bohm = Comparable_or_worse, fl_msg_neoclassical = Comparable_or_worse \<rparr>"
proof -
  note d = fl_run_bohm_tie
  have t: "fl_confinement_time (Fin 1) (Fin (2026619832316723 / 4503599627370496)) = Inr (Fin (2501999792983609 / 1125899906842624))"
    unfolding fl_confinement_time_one using rnd_eval [of 1 "1 / (2026619832316723 / 4503599627370496)" 5003999585967218] by simp
  have q: "fl_truediv (Fin 9) (Fin 20) = Inr (Fin (8106479329266893 / 18014398509481984))"
    using rnd_eval [of "- 2" "9 / 20" 8106479329266893] by simp
  have kq: "fl_mul (Fin 1) (Fin (8106479329266893 / 18014398509481984)) = Fin (8106479329266893 / 18014398509481984)"
    using rnd_eval [of "- 2" "1 * (8106479329266893 / 18014398509481984)" 8106479329266893] by simp
  have db: "fl_bohm_diffusion (Fin 1) (Fin 9) (Fin 20) = Inr (Fin (8106479329266893 / 18014398509481984))"
    unfolding fl_bohm_diffusion_steps [OF q] kq ..
  have tb: "fl_confinement_time (Fin 1) (Fin (8106479329266893 / 18014398509481984)) = Inr (Fin (2501999792983609 / 1125899906842624))"
    unfolding fl_confinement_time_one using rnd_eval [of 1 "1 / (8106479329266893 / 18014398509481984)" 5003999585967218] by simp
  have sq: "sqrt 9 = 3"
    by (rule real_sqrt_unique) simp_all
  have ph: "fl_pow_half (Fin 9) = Inr (Fin 3)"
    using rnd_eval [of 1 "3" 6755399441055744] by (simp add: sq)
  have p2: "fl_pow_two (Fin 20) = Inr (Fin 400)"
    using rnd_eval [of 8 "20 * 20" 7036874417766400] by simp
  have nq: "fl_truediv (Fin 3) (Fin 400) = Inr (Fin (1080863910568919 / 144115188075855872))"
    using rnd_eval [of "- 8" "3 / 400" 8646911284551352] by simp
  have kn: "fl_mul (rnd (1 / 10)) (Fin (1080863910568919 / 144115188075855872)) = Fin (3458764513820541 / 4611686018427387904)"
    unfolding fl_tenth_value using rnd_eval [of "- 11" "(3602879701896397 / 36028797018963968) * (1080863910568919 / 144115188075855872)" 6917529027641082] by simp
  have dn: "fl_neoclassical_diffusion (rnd (1 / 10)) (Fin 9) (Fin 20) = Inr (Fin (3458764513820541 / 4611686018427387904))"
    unfolding fl_neoclassical_diffusion_steps [OF ph p2 nq] kn ..
  have tn: "fl_confinement_time (Fin 1) (Fin (3458764513820541 / 4611686018427387904)) = Inr (Fin (5864062014805333 / 4398046511104))"
    unfolding fl_confinement_time_one using rnd_eval [of 10 "1 / (3458764513820541 / 4611686018427387904)" 5864062014805333] by simp
  have mb: "fl_compare_tau (Fin (2501999792983609 / 1125899906842624)) (Fin (2501999792983609 / 1125899906842624)) = Comparable_or_worse"
    by (simp add: fl_compare_tau_def)
  have mn: "fl_compare_tau (Fin (2501999792983609 / 1125899906842624)) (Fin (5864062014805333 / 4398046511104)) = Comparable_or_worse"
    by (simp add: fl_compare_tau_def)
  show ?thesis
    unfolding fl_main_calc_steps [OF d t db tb dn tn] mb mn ..
qed

lemma fl_run_neoclassical_tie:
  "fl_calculate_unex_diffusion (Fin 1) (Fin (1 / 2)) (Fin (3602879701896397 / 9007199254740992)) (Fin (5764607523034235 / 72057594037927936)) (Fin (3602879701896397 / 18014398509481984)) (Fin (3602879701896397 / 36028797018963968)) (Fin (1 / 2)) (Fin (5764607523034235 / 576460752303423488)) =
     Inr (Fin (7205759403792793 / 18014398509481984))"
proof -
  have q: "fl_truediv (Fin 1) (Fin (1 / 2)) = Inr (Fin 2)"
    using rnd_eval [of 1 "1 / (1 / 2)" 4503599627370496] by (simp add: fl_sub_def)
  have a: "fl_mul (Fin (3602879701896397 / 18014398509481984)) (Fin 2) = Fin (3602879701896397 / 9007199254740992)"
    using rnd_eval [of "- 2" "(3602879701896397 / 18014398509481984) * 2" 7205759403792794] by (simp add: fl_sub_def)
  have b: "fl_mul (Fin (3602879701896397 / 36028797018963968)) (Fin (3602879701896397 / 9007199254740992)) = Fin (1441151880758559 / 36028797018963968)"
    using rnd_eval [of "- 5" "(3602879701896397 / 36028797018963968) * (3602879701896397 / 9007199254740992)" 5764607523034236] by (simp add: fl_sub_def)
  have m: "fl_max (Fin 0) (Fin (5764607523034235 / 72057594037927936)) = Fin (5764607523034235 / 72057594037927936)"
    by (simp add: fl_max_def)
  have c: "fl_mul (Fin (1 / 2)) (Fin (5764607523034235 / 72057594037927936)) = Fin (5764607523034235 / 144115188075855872)"
    using rnd_eval [of "- 5" "(1 / 2) * (5764607523034235 / 72057594037927936)" 5764607523034235] by (simp add: fl_sub_def)
  have s: "fl_sub (Fin (3602879701896397 / 9007199254740992)) (Fin (1441151880758559 / 36028797018963968)) = Fin (3242591731706757 / 9007199254740992)"
    using rnd_eval [of "- 2" "(3602879701896397 / 9007199254740992) + - (1441151880758559 / 36028797018963968)" 6485183463413514] by (simp add: fl_sub_def)
  have r: "fl_add (Fin (3242591731706757 / 9007199254740992)) (Fin (5764607523034235 / 144115188075855872)) = Fin (7205759403792793 / 18014398509481984)"
    using rnd_eval [of "- 2" "(3242591731706757 / 9007199254740992) + (5764607523034235 / 144115188075855872)" 7205759403792793] by (simp add: fl_sub_def)
  have f: "fl_max (Fin (7205759403792793 / 18014398509481984)) fl_min_diffusion_floor = Fin (7205759403792793 / 18014398509481984)"
    by (simp add: fl_max_def fl_min_diffusion_floor_value)
  show ?thesis
    unfolding fl_calculate_unex_diffusion_steps [OF q] m a b c s r f ..
qed

lemma fl_main_run_neoclassical_tie:
  "fl_main_calc (Fin 1) (Fin (1 / 2)) (Fin (3602879701896397 / 9007199254740992)) (Fin (5764607523034235 / 72057594037927936)) (Fin (3602879701896397 / 18014398509481984)) (Fin (3602879701896397 / 36028797018963968)) (Fin (1 / 2)) (Fin (5764607523034235 / 576460752303423488)) =
     Inr \<lparr> fl_D_UNEX = Fin (7205759403792793 / 18014398509481984), fl_tau_E_unex = Fin (5 / 2),
           fl_D_Bohm = Fin 2, fl_tau_E_bohm = Fin (1 / 2),
           fl_D_Neoclassical = Fin (3602879701896397 / 9007199254740992),
           fl_tau_E_neoclassical = Fin (5 / 2),
           fl_msg_bohm = Better, fl_msg_neoclassical = Comparable_or_worse \<rparr>"
proof -
  note d = fl_run_neoclassical_tie
  have t: "fl_confinement_time (Fin 1) (Fin (7205759403792793 / 18014398509481984)) = Inr (Fin (5 / 2))"
    unfolding fl_confinement_time_one using rnd_eval [of 1 "1 / (7205759403792793 / 18014398509481984)" 5629499534213120] by simp
  have q: "fl_truediv (Fin 1) (Fin (1 / 2)) = Inr (Fin 2)"
    using rnd_eval [of 1 "1 / (1 / 2)" 4503599627370496] by simp
  have kq: "fl_mul (Fin 1) (Fin 2) = Fin 2"
    using rnd_eval [of 1 "1 * 2" 4503599627370496] by simp
  have db: "fl_bohm_diffusion (Fin 1) (Fin 1) (Fin (1 / 2)) = Inr (Fin 2)"
    unfolding fl_bohm_diffusion_steps [OF q] kq ..
  have tb: "fl_confinement_time (Fin 1) (Fin 2) = Inr (Fin (1 / 2))"
    unfolding fl_confinement_time_one using rnd_eval [of "- 1" "1 / 2" 4503599627370496] by simp
  have sq: "sqrt 1 = 1"
    by (rule real_sqrt_unique) simp_all
  have ph: "fl_pow_half (Fin 1) = Inr (Fin 1)"
    using rnd_eval [of 0 "1" 4503599627370496] by (simp add: sq)
  have p2: "fl_pow_two (Fin (1 / 2)) = Inr (Fin (1 / 4))"
    using rnd_eval [of "- 2" "(1 / 2) * (1 / 2)" 4503599627370496] by simp
  have nq: "fl_truediv (Fin 1) (Fin (1 / 4)) = Inr (Fin 4)"
    using rnd_eval [of 2 "1 / (1 / 4)" 4503599627370496] by simp
  have kn: "fl_mul (rnd (1 / 10)) (Fin 4) = Fin (3602879701896397 / 9007199254740992)"
    unfolding fl_tenth_value using rnd_eval [of "- 2" "(3602879701896397 / 36028797018963968) * 4" 7205759403792794] by simp
  have dn: "fl_neoclassical_diffusion (rnd (1 / 10)) (Fin 1) (Fin (1 / 2)) = Inr (Fin (3602879701896397 / 9007199254740992))"
    unfolding fl_neoclassical_diffusion_steps [OF ph p2 nq] kn ..
  have tn: "fl_confinement_time (Fin 1) (Fin (3602879701896397 / 9007199254740992)) = Inr (Fin (5 / 2))"
    unfolding fl_confinement_time_one using rnd_eval [of 1 "1 / (3602879701896397 / 9007199254740992)" 5629499534213120] by simp
  have mb: "fl_compare_tau (Fin (5 / 2)) (Fin (1 / 2)) = Better"
    by (simp add: fl_compare_tau_def)
  have mn: "fl_compare_tau (Fin (5 / 2)) (Fin (5 / 2)) = Comparable_or_worse"
    by (simp add: fl_compare_tau_def)
  show ?thesis
    unfolding fl_main_calc_steps [OF d t db tb dn tn] mb mn ..
qed

lemma fl_run_floor:
  "fl_calculate_unex_diffusion (Fin 4) (Fin 2) (Fin 10) (Fin 0) (Fin 1) (Fin 1) (Fin 1) (Fin (5764607523034235 / 576460752303423488)) =
     Inr (Fin (7378697629483821 / 73786976294838206464))"
proof -
  have q: "fl_truediv (Fin 4) (Fin 2) = Inr (Fin 2)"
    using rnd_eval [of 1 "4 / 2" 4503599627370496] by (simp add: fl_sub_def)
  have a: "fl_mul (Fin 1) (Fin 2) = Fin 2"
    using rnd_eval [of 1 "1 * 2" 4503599627370496] by (simp add: fl_sub_def)
  have b: "fl_mul (Fin 1) (Fin 10) = Fin 10"
    using rnd_eval [of 3 "1 * 10" 5629499534213120] by (simp add: fl_sub_def)
  have m: "fl_max (Fin 0) (Fin 0) = Fin 0"
    by (simp add: fl_max_def)
  have c: "fl_mul (Fin 1) (Fin 0) = Fin 0"
    using rnd_zero by (simp add: fl_sub_def)
  have s: "fl_sub (Fin 2) (Fin 10) = Fin (- 8)"
    using rnd_eval [of 3 "2 + - 10" "- 4503599627370496"] by (simp add: fl_sub_def)
  have r: "fl_add (Fin (- 8)) (Fin 0) = Fin (- 8)"
    using rnd_eval [of 3 "(- 8) + 0" "- 4503599627370496"] by (simp add: fl_sub_def)
  have f: "fl_max (Fin (- 8)) fl_min_diffusion_floor = Fin (7378697629483821 / 73786976294838206464)"
    by (simp add: fl_max_def fl_min_diffusion_floor_value)
  show ?thesis
    unfolding fl_calculate_unex_diffusion_steps [OF q] m a b c s r f ..
qed

lemma fl_main_run_floor:
  "fl_main_calc (Fin 4) (Fin 2) (Fin 10) (Fin 0) (Fin 1) (Fin 1) (Fin 1) (Fin (5764607523034235 / 576460752303423488)) =
     Inr \<lparr> fl_D_UNEX = Fin (7378697629483821 / 73786976294838206464), fl_tau_E_unex = Fin 10000,
           fl_D_Bohm = Fin 2, fl_tau_E_bohm = Fin (1 / 2),
           fl_D_Neoclassical = Fin (3602879701896397 / 72057594037927936),
           fl_tau_E_neoclassical = Fin 20,
           fl_msg_bohm = Better, fl_msg_neoclassical = Better \<rparr>"
proof -
  note d = fl_run_floor
  have t: "fl_confinement_time (Fin 1) (Fin (7378697629483821 / 73786976294838206464)) = Inr (Fin 10000)"
    unfolding fl_confinement_time_one using rnd_eval [of 13 "1 / (7378697629483821 / 73786976294838206464)" 5497558138880000] by simp
  have q: "fl_truediv (Fin 4) (Fin 2) = Inr (Fin 2)"
    using rnd_eval [of 1 "4 / 2" 4503599627370496] by simp
  have kq: "fl_mul (Fin 1) (Fin 2) = Fin 2"
    using rnd_eval [of 1 "1 * 2" 4503599627370496] by simp
  have db: "fl_bohm_diffusion (Fin 1) (Fin 4) (Fin 2) = Inr (Fin 2)"
    unfolding fl_bohm_diffusion_steps [OF q] kq ..
  have tb: "fl_confinement_time (Fin 1) (Fin 2) = Inr (Fin (1 / 2))"
    unfolding fl_confinement_time_one using rnd_eval [of "- 1" "1 / 2" 4503599627370496] by simp
  have sq: "sqrt 4 = 2"
    by (rule real_sqrt_unique) simp_all
  have ph: "fl_pow_half (Fin 4) = Inr (Fin 2)"
    using rnd_eval [of 1 "2" 4503599627370496] by (simp add: sq)
  have p2: "fl_pow_two (Fin 2) = Inr (Fin 4)"
    using rnd_eval [of 2 "2 * 2" 4503599627370496] by simp
  have nq: "fl_truediv (Fin 2) (Fin 4) = Inr (Fin (1 / 2))"
    using rnd_eval [of "- 1" "2 / 4" 4503599627370496] by simp
  have kn: "fl_mul (rnd (1 / 10)) (Fin (1 / 2)) = Fin (3602879701896397 / 72057594037927936)"
    unfolding fl_tenth_value using rnd_eval [of "- 5" "(3602879701896397 / 36028797018963968) * (1 / 2)" 7205759403792794] by simp
  have dn: "fl_neoclassical_diffusion (rnd (1 / 10)) (Fin 4) (Fin 2) = Inr (Fin (3602879701896397 / 72057594037927936))"
    unfolding fl_neoclassical_diffusion_steps [OF ph p2 nq] kn ..
  have tn: "fl_confinement_time (Fin 1) (Fin (3602879701896397 / 72057594037927936)) = Inr (Fin 20)"
    unfolding fl_confinement_time_one using rnd_eval [of 4 "1 / (3602879701896397 / 72057594037927936)" 5629499534213120] by simp
  have mb: "fl_compare_tau (Fin 10000) (Fin (1 / 2)) = Better"
    by (simp add: fl_compare_tau_def)
  have mn: "fl_compare_tau (Fin 10000) (Fin 20) = Better"
    by (simp add: fl_compare_tau_def)
  show ?thesis
    unfolding fl_main_calc_steps [OF d t db tb dn tn] mb mn ..
qed

section \<open>The diffusion evaluator\<close>






text \<open>
  C4. A negative entropy proxy is clamped: for \<open>S_local < 0\<close> the function gives exactly
  what it gives for \<open>S_local = 0\<close>, the same value or the same exception, whatever the
  other arguments are.
\<close>

theorem C4_clamp:
  "S_local < 0 \<Longrightarrow>
   calculate_unex_diffusion T B E_h S_local alpha beta gamma delta =
   calculate_unex_diffusion T B E_h 0 alpha beta gamma delta"
  by (simp add: calculate_unex_diffusion_def py_max_def)

theorem C4_clamp_witness:
  "(- 3 :: real) < 0 \<and>
   calculate_unex_diffusion 10 5 1 (- 3) 1 1 1 (1 / 100) =
   calculate_unex_diffusion 10 5 1 0 1 1 1 (1 / 100) \<and>
   calculate_unex_diffusion 10 0 1 (- 3) 1 1 1 (1 / 100) =
   calculate_unex_diffusion 10 0 1 0 1 1 1 (1 / 100)"
  using C4_clamp [of "- 3" 10 5 1 1 1 1 "1 / 100"] C4_clamp [of "- 3" 10 0 1 1 1 1 "1 / 100"]
  by simp

text \<open>
  C5. On doubles the strict monotonicity is lost to rounding, and what holds is the weak
  one. With the other arguments fixed, and both results numbers: a larger \<open>beta\<close> never
  gives a larger result when \<open>E_h > 0\<close>, a larger \<open>gamma\<close> never gives a smaller result
  when \<open>S_local > 0\<close>, and a larger \<open>alpha\<close> never gives a smaller result when the
  quotient \<open>T / B\<close> is positive.
\<close>

theorem C5_weak_monotone:
  "(fl_lt beta1 beta2 \<and> fl_lt (Fin 0) E_h \<and>
    fl_calculate_unex_diffusion T B E_h S_local alpha beta1 gamma delta = Inr D1 \<and>
    fl_calculate_unex_diffusion T B E_h S_local alpha beta2 gamma delta = Inr D2 \<and>
    D1 \<noteq> NaN \<and> D2 \<noteq> NaN \<longrightarrow> fl_le D2 D1) \<and>
   (fl_lt gamma1 gamma2 \<and> fl_lt (Fin 0) S_local \<and>
    fl_calculate_unex_diffusion T B E_h S_local alpha beta gamma1 delta = Inr G1 \<and>
    fl_calculate_unex_diffusion T B E_h S_local alpha beta gamma2 delta = Inr G2 \<and>
    G1 \<noteq> NaN \<and> G2 \<noteq> NaN \<longrightarrow> fl_le G1 G2) \<and>
   (fl_lt alpha1 alpha2 \<and> fl_truediv T B = Inr q \<and> fl_lt (Fin 0) q \<and>
    fl_calculate_unex_diffusion T B E_h S_local alpha1 beta gamma delta = Inr A1 \<and>
    fl_calculate_unex_diffusion T B E_h S_local alpha2 beta gamma delta = Inr A2 \<and>
    A1 \<noteq> NaN \<and> A2 \<noteq> NaN \<longrightarrow> fl_le A1 A2)"
proof (intro conjI impI)
  assume h: "fl_lt beta1 beta2 \<and> fl_lt (Fin 0) E_h \<and>
    fl_calculate_unex_diffusion T B E_h S_local alpha beta1 gamma delta = Inr D1 \<and>
    fl_calculate_unex_diffusion T B E_h S_local alpha beta2 gamma delta = Inr D2 \<and>
    D1 \<noteq> NaN \<and> D2 \<noteq> NaN"
  then obtain p where p: "fl_truediv T B = Inr p"
    by (auto elim: fl_calculate_unex_diffusion_Inr)
  define a where "a = fl_mul alpha p"
  define c where "c = fl_mul gamma (fl_max (Fin 0) S_local)"
  have d1: "D1 = fl_max (fl_add (fl_sub a (fl_mul beta1 E_h)) c) fl_min_diffusion_floor"
    and d2: "D2 = fl_max (fl_add (fl_sub a (fl_mul beta2 E_h)) c) fl_min_diffusion_floor"
    using h fl_calculate_unex_diffusion_steps [OF p] by (simp_all add: a_def c_def)
  have n1: "fl_add (fl_sub a (fl_mul beta1 E_h)) c \<noteq> NaN"
    and n2: "fl_add (fl_sub a (fl_mul beta2 E_h)) c \<noteq> NaN"
    using h d1 d2 fl_max_floor_NaN by blast+
  then have s1: "fl_sub a (fl_mul beta1 E_h) \<noteq> NaN" and s2: "fl_sub a (fl_mul beta2 E_h) \<noteq> NaN"
    using fl_add_NaN_left by blast+
  then have b1: "fl_mul beta1 E_h \<noteq> NaN" and b2: "fl_mul beta2 E_h \<noteq> NaN"
    using fl_sub_NaN by blast+
  have "fl_le beta1 beta2" using h by (simp add: fl_lt_imp_le)
  then have "fl_le (fl_mul beta1 E_h) (fl_mul beta2 E_h)"
    using h b1 b2 by (intro fl_mul_mono_left) simp_all
  then have "fl_le (fl_sub a (fl_mul beta2 E_h)) (fl_sub a (fl_mul beta1 E_h))"
    using s1 s2 by (intro fl_sub_anti_right)
  then have "fl_le (fl_add (fl_sub a (fl_mul beta2 E_h)) c) (fl_add (fl_sub a (fl_mul beta1 E_h)) c)"
    using n1 n2 by (intro fl_add_mono_left)
  then show "fl_le D2 D1"
    unfolding d1 d2 by (rule fl_max_floor_mono)
next
  assume h: "fl_lt gamma1 gamma2 \<and> fl_lt (Fin 0) S_local \<and>
    fl_calculate_unex_diffusion T B E_h S_local alpha beta gamma1 delta = Inr G1 \<and>
    fl_calculate_unex_diffusion T B E_h S_local alpha beta gamma2 delta = Inr G2 \<and>
    G1 \<noteq> NaN \<and> G2 \<noteq> NaN"
  then obtain p where p: "fl_truediv T B = Inr p"
    by (auto elim: fl_calculate_unex_diffusion_Inr)
  define s where "s = fl_sub (fl_mul alpha p) (fl_mul beta E_h)"
  have m: "fl_max (Fin 0) S_local = S_local" using h by (simp add: fl_max_zero_pos)
  have d1: "G1 = fl_max (fl_add s (fl_mul gamma1 S_local)) fl_min_diffusion_floor"
    and d2: "G2 = fl_max (fl_add s (fl_mul gamma2 S_local)) fl_min_diffusion_floor"
    using h fl_calculate_unex_diffusion_steps [OF p] by (simp_all add: s_def m)
  have n1: "fl_add s (fl_mul gamma1 S_local) \<noteq> NaN"
    and n2: "fl_add s (fl_mul gamma2 S_local) \<noteq> NaN"
    using h d1 d2 fl_max_floor_NaN by blast+
  then have c1: "fl_mul gamma1 S_local \<noteq> NaN" and c2: "fl_mul gamma2 S_local \<noteq> NaN"
    using fl_add_NaN_left by blast+
  have "fl_le gamma1 gamma2" using h by (simp add: fl_lt_imp_le)
  then have "fl_le (fl_mul gamma1 S_local) (fl_mul gamma2 S_local)"
    using h c1 c2 by (intro fl_mul_mono_left) simp_all
  then have "fl_le (fl_add s (fl_mul gamma1 S_local)) (fl_add s (fl_mul gamma2 S_local))"
    using n1 n2 by (intro fl_add_mono_right)
  then show "fl_le G1 G2"
    unfolding d1 d2 by (rule fl_max_floor_mono)
next
  assume h: "fl_lt alpha1 alpha2 \<and> fl_truediv T B = Inr q \<and> fl_lt (Fin 0) q \<and>
    fl_calculate_unex_diffusion T B E_h S_local alpha1 beta gamma delta = Inr A1 \<and>
    fl_calculate_unex_diffusion T B E_h S_local alpha2 beta gamma delta = Inr A2 \<and>
    A1 \<noteq> NaN \<and> A2 \<noteq> NaN"
  then have p: "fl_truediv T B = Inr q" by simp
  define b where "b = fl_mul beta E_h"
  define c where "c = fl_mul gamma (fl_max (Fin 0) S_local)"
  have d1: "A1 = fl_max (fl_add (fl_sub (fl_mul alpha1 q) b) c) fl_min_diffusion_floor"
    and d2: "A2 = fl_max (fl_add (fl_sub (fl_mul alpha2 q) b) c) fl_min_diffusion_floor"
    using h fl_calculate_unex_diffusion_steps [OF p] by (simp_all add: b_def c_def)
  have n1: "fl_add (fl_sub (fl_mul alpha1 q) b) c \<noteq> NaN"
    and n2: "fl_add (fl_sub (fl_mul alpha2 q) b) c \<noteq> NaN"
    using h d1 d2 fl_max_floor_NaN by blast+
  then have s1: "fl_sub (fl_mul alpha1 q) b \<noteq> NaN" and s2: "fl_sub (fl_mul alpha2 q) b \<noteq> NaN"
    using fl_add_NaN_left by blast+
  then have a1: "fl_mul alpha1 q \<noteq> NaN" and a2: "fl_mul alpha2 q \<noteq> NaN"
    using fl_sub_NaN by blast+
  have "fl_le alpha1 alpha2" using h by (simp add: fl_lt_imp_le)
  then have "fl_le (fl_mul alpha1 q) (fl_mul alpha2 q)"
    using h a1 a2 by (intro fl_mul_mono_left) simp_all
  then have "fl_le (fl_sub (fl_mul alpha1 q) b) (fl_sub (fl_mul alpha2 q) b)"
    using s1 s2 by (intro fl_sub_mono_left)
  then have "fl_le (fl_add (fl_sub (fl_mul alpha1 q) b) c) (fl_add (fl_sub (fl_mul alpha2 q) b) c)"
    using n1 n2 by (intro fl_add_mono_left)
  then show "fl_le A1 A2"
    unfolding d1 d2 by (rule fl_max_floor_mono)
qed

theorem C5_weak_monotone_witness:
  "fl_lt (Fin 1) (Fin 2) \<and> fl_lt (Fin 0) (Fin 1) \<and> fl_lt (Fin 0) (Fin (1 / 2)) \<and>
   fl_truediv (Fin 10) (Fin 5) = Inr (Fin 2) \<and> fl_lt (Fin 0) (Fin 2) \<and>
   fl_calculate_unex_diffusion (Fin 10) (Fin 5) (Fin 1) (Fin (1 / 2)) (Fin 1) (Fin 1) (Fin 1) (Fin 1) =
     Inr (Fin (3 / 2)) \<and>
   fl_calculate_unex_diffusion (Fin 10) (Fin 5) (Fin 1) (Fin (1 / 2)) (Fin 1) (Fin 2) (Fin 1) (Fin 1) =
     Inr (Fin (1 / 2)) \<and>
   fl_le (Fin (1 / 2)) (Fin (3 / 2)) \<and>
   fl_calculate_unex_diffusion (Fin 10) (Fin 5) (Fin 1) (Fin (1 / 2)) (Fin 1) (Fin 1) (Fin 2) (Fin 1) =
     Inr (Fin 2) \<and>
   fl_le (Fin (3 / 2)) (Fin 2) \<and>
   fl_calculate_unex_diffusion (Fin 10) (Fin 5) (Fin 1) (Fin (1 / 2)) (Fin 2) (Fin 1) (Fin 1) (Fin 1) =
     Inr (Fin (7 / 2)) \<and>
   fl_le (Fin (3 / 2)) (Fin (7 / 2))"
proof -
  have q: "fl_truediv (Fin 10) (Fin 5) = Inr (Fin 2)"
    using rnd_eval [of 1 "10 / 5" 4503599627370496] by simp
  show ?thesis
    using C5_weak_monotone [where T = "Fin 10" and B = "Fin 5" and E_h = "Fin 1"
        and S_local = "Fin (1 / 2)" and alpha = "Fin 1" and beta = "Fin 1" and gamma = "Fin 1"
        and delta = "Fin 1" and q = "Fin 2"
        and ?beta1.0 = "Fin 1" and ?beta2.0 = "Fin 2" and ?D1.0 = "Fin (3 / 2)" and ?D2.0 = "Fin (1 / 2)"
        and ?gamma1.0 = "Fin 1" and ?gamma2.0 = "Fin 2" and ?G1.0 = "Fin (3 / 2)" and ?G2.0 = "Fin 2"
        and ?alpha1.0 = "Fin 1" and ?alpha2.0 = "Fin 2" and ?A1.0 = "Fin (3 / 2)" and ?A2.0 = "Fin (7 / 2)"]
      q fl_run_default fl_run_beta_two fl_run_gamma_two fl_run_alpha_two
    by simp
qed

text \<open>
  The claim as stated fails in each of its three parts: with \<open>E_h = 2^-60\<close> the results
  for \<open>beta = 1\<close> and \<open>beta = 2\<close> are both \<open>2.5\<close>, with \<open>S_local = 2^-60\<close> the results
  for \<open>gamma = 1\<close> and \<open>gamma = 2\<close> are both \<open>1.0\<close>, and with \<open>T / B = 2^-60\<close> the
  results for \<open>alpha = 1\<close> and \<open>alpha = 2\<close> are both \<open>1.0\<close>: equal, and above the floor.
\<close>

theorem C5_monotone_counterexample:
  "fl_lt (Fin 1) (Fin 2) \<and>
   fl_lt (Fin 0) (Fin (1 / 1152921504606846976)) \<and>
   fl_calculate_unex_diffusion (Fin 10) (Fin 5) (Fin (1 / 1152921504606846976)) (Fin (1 / 2))
       (Fin 1) (Fin 1) (Fin 1) (Fin 1) = Inr (Fin (5 / 2)) \<and>
   fl_calculate_unex_diffusion (Fin 10) (Fin 5) (Fin (1 / 1152921504606846976)) (Fin (1 / 2))
       (Fin 1) (Fin 2) (Fin 1) (Fin 1) = Inr (Fin (5 / 2)) \<and>
   \<not> fl_lt (Fin (5 / 2)) (Fin (5 / 2)) \<and> Fin (5 / 2) \<noteq> fl_min_diffusion_floor \<and>
   fl_calculate_unex_diffusion (Fin 10) (Fin 5) (Fin 1) (Fin (1 / 1152921504606846976))
       (Fin 1) (Fin 1) (Fin 1) (Fin 1) = Inr (Fin 1) \<and>
   fl_calculate_unex_diffusion (Fin 10) (Fin 5) (Fin 1) (Fin (1 / 1152921504606846976))
       (Fin 1) (Fin 1) (Fin 2) (Fin 1) = Inr (Fin 1) \<and>
   fl_truediv (Fin (1 / 1152921504606846976)) (Fin 1) = Inr (Fin (1 / 1152921504606846976)) \<and>
   fl_calculate_unex_diffusion (Fin (1 / 1152921504606846976)) (Fin 1) (Fin 1) (Fin 1)
       (Fin 1) (Fin 0) (Fin 1) (Fin 1) = Inr (Fin 1) \<and>
   fl_calculate_unex_diffusion (Fin (1 / 1152921504606846976)) (Fin 1) (Fin 1) (Fin 1)
       (Fin 2) (Fin 0) (Fin 1) (Fin 1) = Inr (Fin 1) \<and>
   \<not> fl_lt (Fin 1) (Fin 1) \<and> Fin 1 \<noteq> fl_min_diffusion_floor"
proof -
  have q: "fl_truediv (Fin (1 / 1152921504606846976)) (Fin 1) = Inr (Fin (1 / 1152921504606846976))"
    using rnd_eval [of "- 60" "1 / 1152921504606846976 / 1" 4503599627370496] by simp
  show ?thesis
    using q fl_run_tiny_E_beta_one fl_run_tiny_E_beta_two fl_run_tiny_S_gamma_one
      fl_run_tiny_S_gamma_two fl_run_tiny_T_alpha_one fl_run_tiny_T_alpha_two
    by (simp add: fl_min_diffusion_floor_value)
qed

text \<open>
  C6. The argument \<open>delta\<close> has no effect: with the other seven arguments fixed, any two
  values of \<open>delta\<close> give the same result.
\<close>

theorem C6_delta_unused:
  "calculate_unex_diffusion T B E_h S_local alpha beta gamma delta1 =
   calculate_unex_diffusion T B E_h S_local alpha beta gamma delta2"
  by (simp add: calculate_unex_diffusion_def)

theorem C6_delta_unused_witness:
  "calculate_unex_diffusion 10 5 1 (1 / 2) 1 1 1 (1 / 1000) =
   calculate_unex_diffusion 10 5 1 (1 / 2) 1 1 1 (1 / 10)"
  using C6_delta_unused [of 10 5 1 "1 / 2" 1 1 1 "1 / 1000" "1 / 10"] by simp

text \<open>
  C7. With \<open>B = 0\<close> the function returns no value: the division \<open>T / B\<close> raises
  \<open>ZeroDivisionError\<close>, which reaches the caller; neither the floor nor any other number
  is returned in its place.
\<close>

theorem C7_division_fault:
  "B = 0 \<Longrightarrow>
   calculate_unex_diffusion T B E_h S_local alpha beta gamma delta = Inl ZeroDivisionError \<and>
   (\<forall>D. calculate_unex_diffusion T B E_h S_local alpha beta gamma delta \<noteq> Inr D)"
  by (simp add: calculate_unex_diffusion_fault)

theorem C7_division_fault_witness:
  "(0::real) = 0 \<and>
   calculate_unex_diffusion 10 0 1 (1 / 2) 1 1 1 (1 / 100) = Inl ZeroDivisionError \<and>
   calculate_unex_diffusion 10 0 1 (1 / 2) 1 1 1 (1 / 100) \<noteq> Inr (1 / 10000)"
  using C7_division_fault [of 0 10 1 "1 / 2" 1 1 1 "1 / 100"] by simp

section \<open>The confinement comparator\<close>





text \<open>
  C9. Each of the two comparisons of \<open>main\<close> selects the "better than" message exactly
  when the primary confinement time is strictly greater than the reference one, and the
  "comparable to or worse than" message otherwise; equal times give the latter.
\<close>

theorem C9_comparison:
  "main_calc T B E_h S_local alpha beta gamma delta = Inr r \<Longrightarrow>
     (msg_bohm r = Better \<longleftrightarrow> tau_E_unex r > tau_E_bohm r) \<and>
     (msg_bohm r = Comparable_or_worse \<longleftrightarrow> tau_E_unex r \<le> tau_E_bohm r) \<and>
     (msg_neoclassical r = Better \<longleftrightarrow> tau_E_unex r > tau_E_neoclassical r) \<and>
     (msg_neoclassical r = Comparable_or_worse \<longleftrightarrow> tau_E_unex r \<le> tau_E_neoclassical r) \<and>
     (tau_E_unex r = tau_E_bohm r \<longrightarrow> msg_bohm r = Comparable_or_worse) \<and>
     (tau_E_unex r = tau_E_neoclassical r \<longrightarrow> msg_neoclassical r = Comparable_or_worse)"
  by (simp add: main_calc_Inr_fields(7,8) compare_tau_def)

theorem C9_comparison_witness:
  "main_calc 4 2 0 0 1 1 1 (1 / 100) =
     Inr \<lparr> D_UNEX = 2, tau_E_unex = 1 / 2, D_Bohm = 2, tau_E_bohm = 1 / 2,
           D_Neoclassical = 1 / 20, tau_E_neoclassical = 20,
           msg_bohm = Comparable_or_worse, msg_neoclassical = Comparable_or_worse \<rparr> \<and>
   main_calc 4 2 (39 / 20) 0 1 1 1 (1 / 100) =
     Inr \<lparr> D_UNEX = 1 / 20, tau_E_unex = 20, D_Bohm = 2, tau_E_bohm = 1 / 2,
           D_Neoclassical = 1 / 20, tau_E_neoclassical = 20,
           msg_bohm = Better, msg_neoclassical = Comparable_or_worse \<rparr> \<and>
   main_calc 4 2 10 0 1 1 1 (1 / 100) =
     Inr \<lparr> D_UNEX = 1 / 10000, tau_E_unex = 10000, D_Bohm = 2, tau_E_bohm = 1 / 2,
           D_Neoclassical = 1 / 20, tau_E_neoclassical = 20,
           msg_bohm = Better, msg_neoclassical = Better \<rparr> \<and>
   (1 / 2 :: real) = 1 / 2 \<and> (20 :: real) = 20 \<and> (10000 :: real) > 20"
  using C9_comparison [OF main_calc_example_tie_bohm]
        C9_comparison [OF main_calc_example_tie_neoclassical]
        C9_comparison [OF main_calc_example_floor]
        main_calc_example_tie_bohm main_calc_example_tie_neoclassical main_calc_example_floor
  by simp

text \<open>
  C10. The three confinement times use the same length \<open>a = 1\<close>, but on doubles the
  quotient \<open>1 / D\<close> is rounded, and two different coefficients can give the same time.
  What holds for positive coefficients is one direction: when the primary time exceeds
  the Bohm (the neoclassical) time, that is when the "better than" branch is taken,
  \<open>D_UNEX\<close> is strictly smaller than \<open>D_Bohm\<close> (than \<open>D_Neoclassical\<close>); and when
  \<open>D_UNEX\<close> is strictly smaller, the primary time is greater than or equal to the
  reference time.
\<close>

theorem C10_one_direction:
  "(fl_lt (Fin 0) D1 \<and> fl_lt (Fin 0) D2 \<and>
    fl_confinement_time (Fin 1) D1 = Inr t1 \<and> fl_confinement_time (Fin 1) D2 = Inr t2 \<longrightarrow>
      (fl_lt t2 t1 \<longrightarrow> fl_lt D1 D2) \<and>
      (fl_compare_tau t1 t2 = Better \<longrightarrow> fl_lt D1 D2) \<and>
      (fl_lt D1 D2 \<longrightarrow> fl_le t2 t1)) \<and>
   (fl_main_calc T B E_h S_local alpha beta gamma delta = Inr r \<longrightarrow>
      fl_confinement_time (Fin 1) (fl_D_UNEX r) = Inr (fl_tau_E_unex r) \<and>
      fl_confinement_time (Fin 1) (fl_D_Bohm r) = Inr (fl_tau_E_bohm r) \<and>
      fl_confinement_time (Fin 1) (fl_D_Neoclassical r) = Inr (fl_tau_E_neoclassical r) \<and>
      (fl_lt (Fin 0) (fl_D_UNEX r) \<and> fl_lt (Fin 0) (fl_D_Bohm r) \<longrightarrow>
         (fl_msg_bohm r = Better \<longrightarrow> fl_lt (fl_D_UNEX r) (fl_D_Bohm r)) \<and>
         (fl_lt (fl_D_UNEX r) (fl_D_Bohm r) \<longrightarrow> fl_le (fl_tau_E_bohm r) (fl_tau_E_unex r))) \<and>
      (fl_lt (Fin 0) (fl_D_UNEX r) \<and> fl_lt (Fin 0) (fl_D_Neoclassical r) \<longrightarrow>
         (fl_msg_neoclassical r = Better \<longrightarrow> fl_lt (fl_D_UNEX r) (fl_D_Neoclassical r)) \<and>
         (fl_lt (fl_D_UNEX r) (fl_D_Neoclassical r) \<longrightarrow>
            fl_le (fl_tau_E_neoclassical r) (fl_tau_E_unex r))))"
proof (intro conjI impI)
  assume h: "fl_lt (Fin 0) D1 \<and> fl_lt (Fin 0) D2 \<and>
    fl_confinement_time (Fin 1) D1 = Inr t1 \<and> fl_confinement_time (Fin 1) D2 = Inr t2"
  then have g: "(fl_lt t2 t1 \<longrightarrow> fl_lt D1 D2) \<and>
         (fl_compare_tau t1 t2 = Better \<longrightarrow> fl_lt D1 D2) \<and>
         (fl_lt D1 D2 \<longrightarrow> fl_le t2 t1)"
    by (intro fl_compare_one_direction) simp_all
  { assume "fl_lt t2 t1" then show "fl_lt D1 D2" using g by blast }
  { assume "fl_compare_tau t1 t2 = Better" then show "fl_lt D1 D2" using g by blast }
  { assume "fl_lt D1 D2" then show "fl_le t2 t1" using g by blast }
next
  assume m: "fl_main_calc T B E_h S_local alpha beta gamma delta = Inr r"
  note f = fl_main_calc_Inr [OF m]
  show "fl_confinement_time (Fin 1) (fl_D_UNEX r) = Inr (fl_tau_E_unex r)" by (rule f(2))
  show "fl_confinement_time (Fin 1) (fl_D_Bohm r) = Inr (fl_tau_E_bohm r)" by (rule f(4))
  show "fl_confinement_time (Fin 1) (fl_D_Neoclassical r) = Inr (fl_tau_E_neoclassical r)"
    by (rule f(6))
  {
    assume p: "fl_lt (Fin 0) (fl_D_UNEX r) \<and> fl_lt (Fin 0) (fl_D_Bohm r)"
    then have g: "(fl_lt (fl_tau_E_bohm r) (fl_tau_E_unex r) \<longrightarrow> fl_lt (fl_D_UNEX r) (fl_D_Bohm r)) \<and>
         (fl_compare_tau (fl_tau_E_unex r) (fl_tau_E_bohm r) = Better \<longrightarrow>
            fl_lt (fl_D_UNEX r) (fl_D_Bohm r)) \<and>
         (fl_lt (fl_D_UNEX r) (fl_D_Bohm r) \<longrightarrow> fl_le (fl_tau_E_bohm r) (fl_tau_E_unex r))"
      using f(2) f(4) by (intro fl_compare_one_direction) simp_all
    { assume "fl_msg_bohm r = Better"
      then show "fl_lt (fl_D_UNEX r) (fl_D_Bohm r)" using g f(7) by simp }
    { assume "fl_lt (fl_D_UNEX r) (fl_D_Bohm r)"
      then show "fl_le (fl_tau_E_bohm r) (fl_tau_E_unex r)" using g by blast }
  }
  {
    assume p: "fl_lt (Fin 0) (fl_D_UNEX r) \<and> fl_lt (Fin 0) (fl_D_Neoclassical r)"
    then have g: "(fl_lt (fl_tau_E_neoclassical r) (fl_tau_E_unex r) \<longrightarrow>
            fl_lt (fl_D_UNEX r) (fl_D_Neoclassical r)) \<and>
         (fl_compare_tau (fl_tau_E_unex r) (fl_tau_E_neoclassical r) = Better \<longrightarrow>
            fl_lt (fl_D_UNEX r) (fl_D_Neoclassical r)) \<and>
         (fl_lt (fl_D_UNEX r) (fl_D_Neoclassical r) \<longrightarrow>
            fl_le (fl_tau_E_neoclassical r) (fl_tau_E_unex r))"
      using f(2) f(6) by (intro fl_compare_one_direction) simp_all
    { assume "fl_msg_neoclassical r = Better"
      then show "fl_lt (fl_D_UNEX r) (fl_D_Neoclassical r)" using g f(8) by simp }
    { assume "fl_lt (fl_D_UNEX r) (fl_D_Neoclassical r)"
      then show "fl_le (fl_tau_E_neoclassical r) (fl_tau_E_unex r)" using g by blast }
  }
qed

theorem C10_one_direction_witness:
  "fl_lt (Fin 0) (Fin (3 / 2)) \<and> fl_lt (Fin 0) (Fin 2) \<and>
   fl_confinement_time (Fin 1) (Fin (3 / 2)) = Inr (Fin (6004799503160661 / 9007199254740992)) \<and>
   fl_confinement_time (Fin 1) (Fin 2) = Inr (Fin (1 / 2)) \<and>
   fl_lt (Fin (1 / 2)) (Fin (6004799503160661 / 9007199254740992)) \<and>
   fl_compare_tau (Fin (6004799503160661 / 9007199254740992)) (Fin (1 / 2)) = Better \<and>
   fl_lt (Fin (3 / 2)) (Fin 2) \<and>
   fl_le (Fin (1 / 2)) (Fin (6004799503160661 / 9007199254740992)) \<and>
   fl_main_calc (Fin 4) (Fin 2) (Fin 10) (Fin 0) (Fin 1) (Fin 1) (Fin 1) (Fin (5764607523034235 / 576460752303423488)) =
     Inr \<lparr> fl_D_UNEX = Fin (7378697629483821 / 73786976294838206464), fl_tau_E_unex = Fin 10000,
           fl_D_Bohm = Fin 2, fl_tau_E_bohm = Fin (1 / 2),
           fl_D_Neoclassical = Fin (3602879701896397 / 72057594037927936),
           fl_tau_E_neoclassical = Fin 20,
           fl_msg_bohm = Better, fl_msg_neoclassical = Better \<rparr> \<and>
   fl_lt (Fin 0) (Fin (7378697629483821 / 73786976294838206464)) \<and>
   fl_lt (Fin (7378697629483821 / 73786976294838206464)) (Fin 2) \<and>
   fl_lt (Fin (7378697629483821 / 73786976294838206464)) (Fin (3602879701896397 / 72057594037927936)) \<and>
   fl_le (Fin (1 / 2)) (Fin 10000) \<and>
   fl_le (Fin 20) (Fin 10000)"
proof -
  have t1: "fl_confinement_time (Fin 1) (Fin (3 / 2)) = Inr (Fin (6004799503160661 / 9007199254740992))"
    unfolding fl_confinement_time_one
    using rnd_eval [of "- 1" "1 / (3 / 2)" 6004799503160661] by simp
  have t2: "fl_confinement_time (Fin 1) (Fin 2) = Inr (Fin (1 / 2))"
    unfolding fl_confinement_time_one
    using rnd_eval [of "- 1" "1 / 2" 4503599627370496] by simp
  show ?thesis
    using C10_one_direction [where ?D1.0 = "Fin (3 / 2)" and ?D2.0 = "Fin 2"
        and ?t1.0 = "Fin (6004799503160661 / 9007199254740992)" and ?t2.0 = "Fin (1 / 2)"
        and T = "Fin 4" and B = "Fin 2" and E_h = "Fin 10" and S_local = "Fin 0"
        and alpha = "Fin 1" and beta = "Fin 1" and gamma = "Fin 1"
        and delta = "Fin (5764607523034235 / 576460752303423488)"
        and r = "\<lparr> fl_D_UNEX = Fin (7378697629483821 / 73786976294838206464), fl_tau_E_unex = Fin 10000,
           fl_D_Bohm = Fin 2, fl_tau_E_bohm = Fin (1 / 2),
           fl_D_Neoclassical = Fin (3602879701896397 / 72057594037927936),
           fl_tau_E_neoclassical = Fin 20,
           fl_msg_bohm = Better, fl_msg_neoclassical = Better \<rparr>"]
      t1 t2 fl_main_run_floor
    by (simp add: fl_compare_tau_def)
qed

text \<open>
  The claim as stated fails on slider values. At \<open>T = 9\<close>, \<open>B = 20\<close> and the other
  sliders at \<open>1\<close>, \<open>D_UNEX = 0.44999999999999996\<close> is below \<open>D_Bohm = 0.45\<close> and both
  times are \<open>2.2222222222222223\<close>. At \<open>T = 1\<close>, \<open>B = 0.5\<close>, \<open>E_h = 0.4\<close>,
  \<open>S_local = 0.08\<close>, \<open>alpha = 0.2\<close>, \<open>beta = 0.1\<close>, \<open>gamma = 0.5\<close>,
  \<open>D_UNEX = 0.39999999999999997\<close> is below \<open>D_Neoclassical = 0.4\<close> and both times are
  \<open>2.5\<close>. In each run that comparison takes the "comparable to or worse than" branch.
\<close>

theorem C10_same_length_counterexample:
  "fl_main_calc (Fin 9) (Fin 20) (Fin 1) (Fin 1) (Fin 1) (Fin 1) (Fin 1) (Fin (5764607523034235 / 576460752303423488)) =
     Inr \<lparr> fl_D_UNEX = Fin (2026619832316723 / 4503599627370496), fl_tau_E_unex = Fin (2501999792983609 / 1125899906842624),
           fl_D_Bohm = Fin (8106479329266893 / 18014398509481984), fl_tau_E_bohm = Fin (2501999792983609 / 1125899906842624),
           fl_D_Neoclassical = Fin (3458764513820541 / 4611686018427387904),
           fl_tau_E_neoclassical = Fin (5864062014805333 / 4398046511104),
           fl_msg_bohm = Comparable_or_worse, fl_msg_neoclassical = Comparable_or_worse \<rparr> \<and>
   fl_lt (Fin 0) (Fin (2026619832316723 / 4503599627370496)) \<and>
   fl_lt (Fin (2026619832316723 / 4503599627370496)) (Fin (8106479329266893 / 18014398509481984)) \<and>
   \<not> fl_lt (Fin (2501999792983609 / 1125899906842624)) (Fin (2501999792983609 / 1125899906842624)) \<and>
   fl_main_calc (Fin 1) (Fin (1 / 2)) (Fin (3602879701896397 / 9007199254740992)) (Fin (5764607523034235 / 72057594037927936)) (Fin (3602879701896397 / 18014398509481984)) (Fin (3602879701896397 / 36028797018963968)) (Fin (1 / 2)) (Fin (5764607523034235 / 576460752303423488)) =
     Inr \<lparr> fl_D_UNEX = Fin (7205759403792793 / 18014398509481984), fl_tau_E_unex = Fin (5 / 2),
           fl_D_Bohm = Fin 2, fl_tau_E_bohm = Fin (1 / 2),
           fl_D_Neoclassical = Fin (3602879701896397 / 9007199254740992),
           fl_tau_E_neoclassical = Fin (5 / 2),
           fl_msg_bohm = Better, fl_msg_neoclassical = Comparable_or_worse \<rparr> \<and>
   fl_lt (Fin 0) (Fin (7205759403792793 / 18014398509481984)) \<and>
   fl_lt (Fin (7205759403792793 / 18014398509481984)) (Fin (3602879701896397 / 9007199254740992)) \<and>
   \<not> fl_lt (Fin (5 / 2)) (Fin (5 / 2))"
  using fl_main_run_bohm_tie fl_main_run_neoclassical_tie by simp

end
